theory Spec2Isabelle
  imports Main
begin

section \<open>home-ca: a self-signed root and per-host server certificates\<close>

text \<open>
  The program (\<^verbatim>\<open>home_ca/certs.py\<close>, \<^verbatim>\<open>home_ca/__main__.py\<close>,
  \<^verbatim>\<open>home_ca/config.py\<close>) is embedded with explicit state passing. What it reads
  from its surroundings is a field of the record \<open>world\<close>: the files, the system clock and
  the operating system's random bytes. An exception of the Python code is a value
  \<open>Inl e\<close>, returned together with the world as it was when the exception was raised.

  The program calls the \<^verbatim>\<open>cryptography\<close> package, \<^verbatim>\<open>pathlib\<close> and
  \<^verbatim>\<open>ipaddress\<close>. They are not part of the repository; they are modelled symbolically,
  the way protocol verification models cryptography:
  \<^item> a key pair is determined by the random seed it was generated from, and distinct seeds
    give distinct public keys;
  \<^item> a signature is the term \<open>Signature pk h tbs\<close>, and verifying it against a public key
    compares the three components;
  \<^item> the content of a file is a list of PEM blocks (and stretches of other data); encoding
    an object gives one block, decoding a file returns the first block of the requested
    kind, so that decoding inverts encoding and concatenating two encodings is \<open>@\<close>;
  \<^item> a path is a string, \<open>/\<close> of \<^verbatim>\<open>pathlib\<close> joins with a slash, and two paths are the same
    file exactly when the strings are equal; directories are not modelled (the creation
    of the output directory in \<^verbatim>\<open>main\<close> changes no file and is left out), and no
    operation on a file fails for a reason of the operating system;
  \<^item> the library's validation of the values it is given (the length of a name attribute,
    the range of a date) is not modelled: where the library returns, the model returns
    the same object.
\<close>

subsection \<open>Exceptions\<close>

datatype error =
    ValueError string
  | TypeError string
  | KeyError string
  | IndexError string

type_synonym path = string

definition joinpath :: "path \<Rightarrow> string \<Rightarrow> path" where
  "joinpath dir name = dir @ ''/'' @ name"

subsection \<open>Addresses (\<^verbatim>\<open>ipaddress\<close>)\<close>

datatype ip_address = IPv4Address nat | IPv6Address nat

fun split_on :: "char \<Rightarrow> string \<Rightarrow> string list" where
  "split_on sep [] = [[]]"
| "split_on sep (c # cs) =
     (if c = sep then [] # split_on sep cs
      else (case split_on sep cs of
              [] \<Rightarrow> [[c]]
            | part # parts \<Rightarrow> (c # part) # parts))"

definition is_ascii_digit :: "char \<Rightarrow> bool" where
  "is_ascii_digit c = (48 \<le> (of_char c :: nat) \<and> (of_char c :: nat) \<le> 57)"

definition int_of_digits :: "string \<Rightarrow> nat" where
  "int_of_digits s = foldl (\<lambda>acc c. 10 * acc + ((of_char c :: nat) - 48)) 0 s"

text \<open>\<^verbatim>\<open>IPv4Address._parse_octet\<close>: one to three ASCII digits, no leading zero, at most 255.\<close>

definition parse_octet :: "string \<Rightarrow> nat option" where
  "parse_octet octet_str =
     (if octet_str = [] then None
      else if \<not> list_all is_ascii_digit octet_str then None
      else if length octet_str > 3 then None
      else if octet_str \<noteq> ''0'' \<and> hd octet_str = CHR ''0'' then None
      else if int_of_digits octet_str > 255 then None
      else Some (int_of_digits octet_str))"

definition ipv4_from_string :: "string \<Rightarrow> nat option" where
  "ipv4_from_string ip_str =
     (case map parse_octet (split_on (CHR ''.'') ip_str) of
        [Some a, Some b, Some c, Some d] \<Rightarrow> Some (((a * 256 + b) * 256 + c) * 256 + d)
      | _ \<Rightarrow> None)"

text \<open>
  \<^verbatim>\<open>ipaddress.ip_address\<close> tries the IPv4 notation first and the IPv6 notation second.
  The parser of the IPv6 notation is the parameter \<open>ipv6_from_string\<close>.
\<close>

definition ip_address :: "(string \<Rightarrow> nat option) \<Rightarrow> string \<Rightarrow> error + ip_address" where
  "ip_address ipv6_from_string address =
     (case ipv4_from_string address of
        Some v \<Rightarrow> Inr (IPv4Address v)
      | None \<Rightarrow>
          (case ipv6_from_string address of
             Some v \<Rightarrow> Inr (IPv6Address v)
           | None \<Rightarrow> Inl (ValueError (address @ '' does not appear to be an IPv4 or IPv6 address''))))"

subsection \<open>Keys, names, certificates (\<^verbatim>\<open>cryptography\<close>)\<close>

datatype privkey =
    RSAPrivateKey (public_exponent: nat) (key_size: nat) (seed: nat)
  | ECPrivateKey nat
  | Ed25519PrivateKey nat

datatype pubkey =
    RSAPublicKey nat nat nat
  | ECPublicKey nat
  | Ed25519PublicKey nat

fun public_key :: "privkey \<Rightarrow> pubkey" where
  "public_key (RSAPrivateKey e bits s) = RSAPublicKey e bits s"
| "public_key (ECPrivateKey s) = ECPublicKey s"
| "public_key (Ed25519PrivateKey s) = Ed25519PublicKey s"

fun is_rsa :: "privkey \<Rightarrow> bool" where
  "is_rsa (RSAPrivateKey e bits s) = True"
| "is_rsa _ = False"

definition generate_private_key :: "nat \<Rightarrow> nat \<Rightarrow> nat \<Rightarrow> privkey" where
  "generate_private_key e bits random = RSAPrivateKey e bits random"

datatype name_oid =
    COUNTRY_NAME
  | STATE_OR_PROVINCE_NAME
  | LOCALITY_NAME
  | ORGANIZATION_NAME
  | COMMON_NAME

type_synonym x509_name = "(name_oid \<times> string) list"

datatype general_name = DNSName string | IPAddress ip_address

record key_usage =
  digital_signature :: bool
  content_commitment :: bool
  key_encipherment :: bool
  data_encipherment :: bool
  key_agreement :: bool
  key_cert_sign :: bool
  crl_sign :: bool
  encipher_only :: bool
  decipher_only :: bool

datatype key_digest = SHA1_of pubkey

datatype extension_value =
    BasicConstraints bool "nat option"
  | KeyUsage key_usage
  | SubjectKeyIdentifier key_digest
  | SubjectAlternativeName "general_name list"

record extension =
  ext_value :: extension_value
  critical :: bool

definition from_public_key :: "pubkey \<Rightarrow> extension_value" where
  "from_public_key pk = SubjectKeyIdentifier (SHA1_of pk)"

datatype hash_algorithm = SHA1 | SHA256

text \<open>
  The part of a certificate that is signed. A certificate holds its dates with a
  precision of one second; times are in microseconds since the epoch, as
  \<^verbatim>\<open>datetime\<close> has them.
\<close>

record tbs_certificate =
  subject :: x509_name
  issuer :: x509_name
  subject_public_key :: pubkey
  serial_number :: nat
  not_valid_before :: int
  not_valid_after :: int
  extensions :: "extension list"

datatype signature = Signature pubkey hash_algorithm tbs_certificate

record certificate = tbs_certificate +
  signature_hash_algorithm :: hash_algorithm
  signature :: signature

definition tbs_certificate_bytes :: "certificate \<Rightarrow> tbs_certificate" where
  "tbs_certificate_bytes cert =
     \<lparr>subject = subject cert, issuer = issuer cert,
      subject_public_key = subject_public_key cert, serial_number = serial_number cert,
      not_valid_before = not_valid_before cert, not_valid_after = not_valid_after cert,
      extensions = extensions cert\<rparr>"

definition whole_seconds :: "int \<Rightarrow> int" where
  "whole_seconds t = t - t mod 1000000"

definition timedelta_days :: "int \<Rightarrow> int" where
  "timedelta_days d = d * 86400 * 1000000"

text \<open>\<^verbatim>\<open>CertificateBuilder()...sign(key, algorithm)\<close>: the dates lose their microseconds.\<close>

definition sign :: "tbs_certificate \<Rightarrow> privkey \<Rightarrow> hash_algorithm \<Rightarrow> certificate" where
  "sign builder key alg =
     (let tbs = builder\<lparr>not_valid_before := whole_seconds (not_valid_before builder),
                        not_valid_after := whole_seconds (not_valid_after builder)\<rparr>
      in \<lparr>subject = subject tbs, issuer = issuer tbs,
          subject_public_key = subject_public_key tbs, serial_number = serial_number tbs,
          not_valid_before = not_valid_before tbs, not_valid_after = not_valid_after tbs,
          extensions = extensions tbs,
          signature_hash_algorithm = alg,
          signature = Signature (public_key key) alg tbs\<rparr>)"

definition verify_signature :: "pubkey \<Rightarrow> certificate \<Rightarrow> bool" where
  "verify_signature pk cert =
     (signature cert = Signature pk (signature_hash_algorithm cert) (tbs_certificate_bytes cert))"

subsection \<open>File contents (PEM)\<close>

datatype private_format = TraditionalOpenSSL | PKCS8

datatype key_encryption = NoEncryption | BestAvailableEncryption string

datatype pem_block =
    PrivateKeyBlock private_format key_encryption privkey
  | CertificateBlock certificate
  | OtherData string

type_synonym bytes = "pem_block list"

definition private_bytes :: "private_format \<Rightarrow> key_encryption \<Rightarrow> privkey \<Rightarrow> bytes" where
  "private_bytes fmt enc key = [PrivateKeyBlock fmt enc key]"

definition public_bytes :: "certificate \<Rightarrow> bytes" where
  "public_bytes cert = [CertificateBlock cert]"

text \<open>\<^verbatim>\<open>serialization.load_pem_private_key(data, password=None)\<close>\<close>

fun load_pem_private_key :: "bytes \<Rightarrow> error + privkey" where
  "load_pem_private_key [] = Inl (ValueError ''Could not deserialize key data'')"
| "load_pem_private_key (PrivateKeyBlock fmt NoEncryption key # rest) = Inr key"
| "load_pem_private_key (PrivateKeyBlock fmt (BestAvailableEncryption pw) key # rest) =
     Inl (TypeError ''Password was not given but private key is encrypted'')"
| "load_pem_private_key (other # rest) = load_pem_private_key rest"

text \<open>\<^verbatim>\<open>x509.load_pem_x509_certificate(data)\<close>\<close>

fun load_pem_x509_certificate :: "bytes \<Rightarrow> error + certificate" where
  "load_pem_x509_certificate [] = Inl (ValueError ''Unable to load PEM file'')"
| "load_pem_x509_certificate (CertificateBlock cert # rest) = Inr cert"
| "load_pem_x509_certificate (other # rest) = load_pem_x509_certificate rest"

subsection \<open>The world: files, clock, random bytes\<close>

record world =
  files :: "path \<Rightarrow> bytes option"
  clock :: "nat \<Rightarrow> int"
  clock_reads :: nat
  urandom :: "nat \<Rightarrow> nat"
  urandom_reads :: nat

text \<open>\<^verbatim>\<open>datetime.now(timezone.utc)\<close>: the next reading of the clock.\<close>

definition datetime_now :: "world \<Rightarrow> int \<times> world" where
  "datetime_now w = (clock w (clock_reads w), w\<lparr>clock_reads := Suc (clock_reads w)\<rparr>)"

text \<open>The next value of the operating system's random source.\<close>

definition os_urandom :: "world \<Rightarrow> nat \<times> world" where
  "os_urandom w = (urandom w (urandom_reads w), w\<lparr>urandom_reads := Suc (urandom_reads w)\<rparr>)"

text \<open>\<^verbatim>\<open>x509.random_serial_number()\<close>: twenty random bytes, shifted right by one bit.\<close>

definition random_serial_number :: "world \<Rightarrow> nat \<times> world" where
  "random_serial_number w = (let (r, w') = os_urandom w in ((r mod 2 ^ 160) div 2, w'))"

definition exists_path :: "path \<Rightarrow> world \<Rightarrow> bool" where
  "exists_path p w = (files w p \<noteq> None)"

definition write_file :: "path \<Rightarrow> bytes \<Rightarrow> world \<Rightarrow> world" where
  "write_file p data w = w\<lparr>files := (files w)(p \<mapsto> data)\<rparr>"

subsection \<open>\<^verbatim>\<open>config.py\<close>\<close>

text \<open>
  \<^verbatim>\<open>Host\<close>: a host of the configuration file, with the default \<open>[]\<close> for
  \<open>ip_addresses\<close> already filled in. Both fields are lists of strings, as the YAML loader
  of the program reads scalars.
\<close>

record host =
  names :: "string list"
  ip_addresses :: "string list"

text \<open>
  The command line (\<open>arg_output_directory\<close>) and the keys of the YAML file, each of
  which may be missing. The dictionary under \<open>name\<close> is a list of pairs with distinct
  keys.
\<close>

record config =
  arg_output_directory :: "string option"
  file_output_directory :: "string option"
  file_name :: "(string \<times> string) list option"
  file_domain :: "string option"
  file_hosts :: "host list option"

definition output_path :: "config \<Rightarrow> path" where
  "output_path cfg =
     (case arg_output_directory cfg of
        Some d \<Rightarrow> (if d \<noteq> [] then d
                   else (case file_output_directory cfg of Some f \<Rightarrow> f | None \<Rightarrow> ''certificates''))
      | None \<Rightarrow> (case file_output_directory cfg of Some f \<Rightarrow> f | None \<Rightarrow> ''certificates''))"

definition x509_name :: "config \<Rightarrow> error + (string \<times> string) list" where
  "x509_name cfg =
     (case file_name cfg of
        None \<Rightarrow> Inl (ValueError ''No x509 name defined in the config file'')
      | Some name \<Rightarrow>
          (if name = [] then Inl (ValueError ''No x509 name defined in the config file'')
           else Inr name))"

text \<open>\<^verbatim>\<open>CONFIG.x509_name[key]\<close>\<close>

definition x509_name_item :: "config \<Rightarrow> string \<Rightarrow> error + string" where
  "x509_name_item cfg key =
     (case x509_name cfg of
        Inl e \<Rightarrow> Inl e
      | Inr name \<Rightarrow> (case map_of name key of None \<Rightarrow> Inl (KeyError key) | Some v \<Rightarrow> Inr v))"

definition domain :: "config \<Rightarrow> string" where
  "domain cfg = (case file_domain cfg of Some d \<Rightarrow> d | None \<Rightarrow> ''local'')"

definition hosts :: "config \<Rightarrow> error + host list" where
  "hosts cfg =
     (case file_hosts cfg of
        None \<Rightarrow> Inl (ValueError ''No hosts defined in the config file'')
      | Some hs \<Rightarrow> Inr hs)"

definition ca_validity_days :: int where
  "ca_validity_days = 825"

definition server_validity_days :: int where
  "server_validity_days = 398"

subsection \<open>\<^verbatim>\<open>certs.py\<close>\<close>

definition generate_or_load_key :: "path \<Rightarrow> world \<Rightarrow> (error + privkey) \<times> world" where
  "generate_or_load_key key_file w =
     (case files w key_file of
        Some data \<Rightarrow>
          (case load_pem_private_key data of
             Inl e \<Rightarrow> (Inl e, w)
           | Inr private_key \<Rightarrow>
               (if \<not> is_rsa private_key then (Inl (ValueError ''Invalid key type''), w)
                else (Inr private_key, w)))
      | None \<Rightarrow>
          (let (random, w1) = os_urandom w;
               private_key = generate_private_key 65537 2048 random
           in (Inr private_key,
               write_file key_file (private_bytes TraditionalOpenSSL NoEncryption private_key) w1)))"

definition generate_name :: "config \<Rightarrow> string \<Rightarrow> error + x509_name" where
  "generate_name cfg common_name =
     (case x509_name_item cfg ''country'' of Inl e \<Rightarrow> Inl e | Inr country \<Rightarrow>
      (case x509_name_item cfg ''state'' of Inl e \<Rightarrow> Inl e | Inr state \<Rightarrow>
       (case x509_name_item cfg ''locality'' of Inl e \<Rightarrow> Inl e | Inr locality \<Rightarrow>
        (case x509_name_item cfg ''organization'' of Inl e \<Rightarrow> Inl e | Inr organization \<Rightarrow>
           Inr [(COUNTRY_NAME, country),
                (STATE_OR_PROVINCE_NAME, state),
                (LOCALITY_NAME, locality),
                (ORGANIZATION_NAME, organization),
                (COMMON_NAME, common_name)]))))"

definition ca_extensions :: "privkey \<Rightarrow> extension list" where
  "ca_extensions ca_key =
     [\<lparr>ext_value = BasicConstraints True None, critical = True\<rparr>,
      \<lparr>ext_value = KeyUsage
          \<lparr>digital_signature = True,
           content_commitment = False,
           key_encipherment = False,
           data_encipherment = False,
           key_agreement = False,
           key_cert_sign = True,
           crl_sign = True,
           encipher_only = False,
           decipher_only = False\<rparr>,
        critical = True\<rparr>,
      \<lparr>ext_value = from_public_key (public_key ca_key), critical = False\<rparr>]"

definition generate_or_load_ca_certificate ::
  "config \<Rightarrow> path \<Rightarrow> privkey \<Rightarrow> world \<Rightarrow> (error + certificate) \<times> world" where
  "generate_or_load_ca_certificate cfg certificate_file ca_key w =
     (case files w certificate_file of
        Some data \<Rightarrow> (load_pem_x509_certificate data, w)
      | None \<Rightarrow>
          (let (start_date, w1) = datetime_now w;
               end_date = start_date + timedelta_days ca_validity_days
           in case x509_name_item cfg ''organization'' of
                Inl e \<Rightarrow> (Inl e, w1)
              | Inr organization \<Rightarrow>
                  (case generate_name cfg (organization @ '' CA'') of
                     Inl e \<Rightarrow> (Inl e, w1)
                   | Inr subject_name \<Rightarrow>
                       (let (serial, w2) = random_serial_number w1;
                            certificate = sign
                              \<lparr>subject = subject_name,
                               issuer = subject_name,
                               subject_public_key = public_key ca_key,
                               serial_number = serial,
                               not_valid_before = start_date,
                               not_valid_after = end_date,
                               extensions = ca_extensions ca_key\<rparr>
                              ca_key SHA256
                        in (Inr certificate,
                            write_file certificate_file (public_bytes certificate) w2)))))"

text \<open>An element of \<^verbatim>\<open>names\<close>: a \<^verbatim>\<open>str\<close> or an address.\<close>

datatype name_entry = Str string | Addr ip_address

fun x509_name_of :: "name_entry \<Rightarrow> general_name" where
  "x509_name_of (Str name) = DNSName name"
| "x509_name_of (Addr a) = IPAddress a"

definition generate_or_load_server_certificate ::
  "config \<Rightarrow> path \<Rightarrow> certificate \<Rightarrow> privkey \<Rightarrow> privkey \<Rightarrow> name_entry list \<Rightarrow> world
     \<Rightarrow> (error + certificate) \<times> world" where
  "generate_or_load_server_certificate cfg certificate_file root_cert root_key host_key names_arg w =
     (case files w certificate_file of
        Some data \<Rightarrow> (load_pem_x509_certificate data, w)
      | None \<Rightarrow>
          (let (start_date, w1) = datetime_now w;
               end_date = start_date + timedelta_days server_validity_days
           in case names_arg of
                [] \<Rightarrow> (Inl (IndexError ''list index out of range''), w1)
              | Addr a # _ \<Rightarrow>
                  (Inl (ValueError ''First name must be a string not an IP address''), w1)
              | Str first # _ \<Rightarrow>
                  (case generate_name cfg first of
                     Inl e \<Rightarrow> (Inl e, w1)
                   | Inr subject_name \<Rightarrow>
                       (let x509_names = map x509_name_of names_arg;
                            (serial, w2) = random_serial_number w1;
                            host_cert = sign
                              \<lparr>subject = subject_name,
                               issuer = subject root_cert,
                               subject_public_key = public_key host_key,
                               serial_number = serial,
                               not_valid_before = start_date,
                               not_valid_after = end_date,
                               extensions =
                                 [\<lparr>ext_value = SubjectAlternativeName x509_names,
                                   critical = False\<rparr>]\<rparr>
                              root_key SHA256
                        in (Inr host_cert,
                            write_file certificate_file (public_bytes host_cert) w2)))))"

definition serialize_certificate :: "certificate \<Rightarrow> bytes" where
  "serialize_certificate cert = public_bytes cert"

subsection \<open>\<^verbatim>\<open>__main__.py\<close>\<close>

fun map_result :: "('a \<Rightarrow> error + 'b) \<Rightarrow> 'a list \<Rightarrow> error + 'b list" where
  "map_result f [] = Inr []"
| "map_result f (x # xs) =
     (case f x of
        Inl e \<Rightarrow> Inl e
      | Inr y \<Rightarrow> (case map_result f xs of Inl e \<Rightarrow> Inl e | Inr ys \<Rightarrow> Inr (y # ys)))"

text \<open>
  Line 20 of \<^verbatim>\<open>main\<close>: every name of the host with the domain appended, then every address
  of the host, parsed.
\<close>

definition host_names :: "(string \<Rightarrow> nat option) \<Rightarrow> config \<Rightarrow> host \<Rightarrow> error + name_entry list" where
  "host_names ipv6_from_string cfg host =
     (case map_result (ip_address ipv6_from_string) (ip_addresses host) of
        Inl e \<Rightarrow> Inl e
      | Inr addrs \<Rightarrow>
          Inr (map (\<lambda>name. Str (name @ ''.'' @ domain cfg)) (names host) @ map Addr addrs))"

text \<open>Lines 31 to 36 of \<^verbatim>\<open>main\<close>: the chain file is written when it does not exist.\<close>

definition write_chain :: "path \<Rightarrow> certificate \<Rightarrow> certificate \<Rightarrow> world \<Rightarrow> world" where
  "write_chain chain_file ca_cert host_cert w =
     (if \<not> exists_path chain_file w
      then write_file chain_file
             (serialize_certificate ca_cert @ serialize_certificate host_cert) w
      else w)"

text \<open>The body of the loop over the hosts (lines 19 to 36).\<close>

definition main_host ::
  "(string \<Rightarrow> nat option) \<Rightarrow> config \<Rightarrow> privkey \<Rightarrow> certificate \<Rightarrow> host \<Rightarrow> world
     \<Rightarrow> (error + unit) \<times> world" where
  "main_host ipv6_from_string cfg ca_key ca_cert host w =
     (case names host of
        [] \<Rightarrow> (Inl (IndexError ''list index out of range''), w)
      | name # _ \<Rightarrow>
          (case host_names ipv6_from_string cfg host of
             Inl e \<Rightarrow> (Inl e, w)
           | Inr names_arg \<Rightarrow>
               (case generate_or_load_key
                       (joinpath (output_path cfg) (name @ ''.key.pem'')) w of
                  (Inl e, w1) \<Rightarrow> (Inl e, w1)
                | (Inr host_key, w1) \<Rightarrow>
                    (case generate_or_load_server_certificate cfg
                            (joinpath (output_path cfg) (name @ ''.cert.pem''))
                            ca_cert ca_key host_key names_arg w1 of
                       (Inl e, w2) \<Rightarrow> (Inl e, w2)
                     | (Inr host_cert, w2) \<Rightarrow>
                         (Inr (),
                          write_chain (joinpath (output_path cfg) (name @ ''.chain.pem''))
                            ca_cert host_cert w2)))))"

fun main_hosts ::
  "(string \<Rightarrow> nat option) \<Rightarrow> config \<Rightarrow> privkey \<Rightarrow> certificate \<Rightarrow> host list \<Rightarrow> world
     \<Rightarrow> (error + unit) \<times> world" where
  "main_hosts ipv6_from_string cfg ca_key ca_cert [] w = (Inr (), w)"
| "main_hosts ipv6_from_string cfg ca_key ca_cert (host # rest) w =
     (case main_host ipv6_from_string cfg ca_key ca_cert host w of
        (Inl e, w1) \<Rightarrow> (Inl e, w1)
      | (Inr u, w1) \<Rightarrow> main_hosts ipv6_from_string cfg ca_key ca_cert rest w1)"

definition main :: "(string \<Rightarrow> nat option) \<Rightarrow> config \<Rightarrow> world \<Rightarrow> (error + unit) \<times> world" where
  "main ipv6_from_string cfg w =
     (case generate_or_load_key (joinpath (output_path cfg) ''ca.key.pem'') w of
        (Inl e, w1) \<Rightarrow> (Inl e, w1)
      | (Inr ca_key, w1) \<Rightarrow>
          (case generate_or_load_ca_certificate cfg
                  (joinpath (output_path cfg) ''ca.cert.pem'') ca_key w1 of
             (Inl e, w2) \<Rightarrow> (Inl e, w2)
           | (Inr ca_cert, w2) \<Rightarrow>
               (case hosts cfg of
                  Inl e \<Rightarrow> (Inl e, w2)
                | Inr hs \<Rightarrow> main_hosts ipv6_from_string cfg ca_key ca_cert hs w2)))"

subsection \<open>Observations and example inputs\<close>

text \<open>\<^verbatim>\<open>Name.get_attributes_for_oid\<close>\<close>

definition get_attributes_for_oid :: "name_oid \<Rightarrow> x509_name \<Rightarrow> string list" where
  "get_attributes_for_oid oid name = map snd (filter (\<lambda>attr. fst attr = oid) name)"

definition example_clock :: "nat \<Rightarrow> int" where
  "example_clock n = 1762262400123456 + 250000 * int n"

definition example_urandom :: "nat \<Rightarrow> nat" where
  "example_urandom n = 1000003 * n + 7919"

definition empty_world :: world where
  "empty_world =
     \<lparr>files = (\<lambda>p. None), clock = example_clock, clock_reads = 0,
      urandom = example_urandom, urandom_reads = 0\<rparr>"

definition no_ipv6 :: "string \<Rightarrow> nat option" where
  "no_ipv6 s = None"

definition example_config :: config where
  "example_config =
     \<lparr>arg_output_directory = None,
      file_output_directory = Some ''out'',
      file_name = Some [(''country'', ''GB''), (''state'', ''England''),
                        (''locality'', ''London''), (''organization'', ''Home'')],
      file_domain = Some ''example.com'',
      file_hosts = Some [\<lparr>names = [''foo'', ''foo-alt''], ip_addresses = [''10.0.0.5'']\<rparr>]\<rparr>"

definition weak_rsa_key :: privkey where
  "weak_rsa_key = RSAPrivateKey 3 512 42"

definition weak_key_world :: world where
  "weak_key_world =
     empty_world\<lparr>files := [''k.pem'' \<mapsto> [PrivateKeyBlock PKCS8 NoEncryption weak_rsa_key]]\<rparr>"

definition ec_key_world :: world where
  "ec_key_world =
     empty_world\<lparr>files := [''k.pem'' \<mapsto> [PrivateKeyBlock PKCS8 NoEncryption (ECPrivateKey 7)]]\<rparr>"

definition example_ca_key :: privkey where
  "example_ca_key = RSAPrivateKey 65537 2048 7919"

definition stored_certificate :: certificate where
  "stored_certificate =
     \<lparr>subject = [(COMMON_NAME, ''old.example.com'')],
      issuer = [(COMMON_NAME, ''Old CA'')],
      subject_public_key = RSAPublicKey 65537 2048 11,
      serial_number = 5,
      not_valid_before = 1600000000000000,
      not_valid_after = 1700000000000000,
      extensions = [],
      signature_hash_algorithm = SHA256,
      signature = Signature (RSAPublicKey 65537 2048 13) SHA256
        \<lparr>subject = [(COMMON_NAME, ''old.example.com'')],
         issuer = [(COMMON_NAME, ''Old CA'')],
         subject_public_key = RSAPublicKey 65537 2048 11,
         serial_number = 5,
         not_valid_before = 1600000000000000,
         not_valid_after = 1700000000000000,
         extensions = []\<rparr>\<rparr>"

definition stored_cert_world :: world where
  "stored_cert_world =
     empty_world\<lparr>files := [''out/foo.cert.pem'' \<mapsto> public_bytes stored_certificate]\<rparr>"

definition bundle_world :: world where
  "bundle_world =
     empty_world\<lparr>files := [''bundle.pem'' \<mapsto>
       [PrivateKeyBlock PKCS8 NoEncryption weak_rsa_key, CertificateBlock stored_certificate]]\<rparr>"

definition example_host :: host where
  "example_host = \<lparr>names = [''foo'', ''foo-alt''], ip_addresses = [''10.0.0.5'']\<rparr>"

definition example_root :: certificate where
  "example_root = sign
     \<lparr>subject = [(COUNTRY_NAME, ''GB''), (STATE_OR_PROVINCE_NAME, ''England''),
                 (LOCALITY_NAME, ''London''), (ORGANIZATION_NAME, ''Home''),
                 (COMMON_NAME, ''Home CA'')],
      issuer = [(COUNTRY_NAME, ''GB''), (STATE_OR_PROVINCE_NAME, ''England''),
                (LOCALITY_NAME, ''London''), (ORGANIZATION_NAME, ''Home''),
                (COMMON_NAME, ''Home CA'')],
      subject_public_key = RSAPublicKey 65537 2048 7919,
      serial_number = 503961,
      not_valid_before = 1762262400123456,
      not_valid_after = 1833542400123456,
      extensions = ca_extensions example_ca_key\<rparr> example_ca_key SHA256"

definition world_after_root_key :: world where
  "world_after_root_key =
     empty_world\<lparr>urandom_reads := 1,
       files := [''out/ca.key.pem'' \<mapsto>
                   private_bytes TraditionalOpenSSL NoEncryption example_ca_key]\<rparr>"

definition world_after_root :: world where
  "world_after_root =
     empty_world\<lparr>clock_reads := 1, urandom_reads := 2,
       files := [''out/ca.key.pem'' \<mapsto> private_bytes TraditionalOpenSSL NoEncryption example_ca_key,
                 ''out/ca.cert.pem'' \<mapsto> public_bytes example_root]\<rparr>"

definition example_host_key :: privkey where
  "example_host_key = RSAPrivateKey 65537 2048 2007925"

definition example_leaf :: certificate where
  "example_leaf = sign
     \<lparr>subject = [(COUNTRY_NAME, ''GB''), (STATE_OR_PROVINCE_NAME, ''England''),
                 (LOCALITY_NAME, ''London''), (ORGANIZATION_NAME, ''Home''),
                 (COMMON_NAME, ''foo.example.com'')],
      issuer = subject example_root,
      subject_public_key = RSAPublicKey 65537 2048 2007925,
      serial_number = 1503964,
      not_valid_before = 1762262400373456,
      not_valid_after = 1796649600373456,
      extensions =
        [\<lparr>ext_value = SubjectAlternativeName
            [DNSName ''foo.example.com'', DNSName ''foo-alt.example.com'',
             IPAddress (IPv4Address 167772165)],
          critical = False\<rparr>]\<rparr> example_ca_key SHA256"

definition world_after_host :: world where
  "world_after_host =
     empty_world\<lparr>clock_reads := 2, urandom_reads := 4,
       files := [''out/ca.key.pem'' \<mapsto> private_bytes TraditionalOpenSSL NoEncryption example_ca_key,
                 ''out/ca.cert.pem'' \<mapsto> public_bytes example_root,
                 ''out/foo.key.pem'' \<mapsto> private_bytes TraditionalOpenSSL NoEncryption example_host_key,
                 ''out/foo.cert.pem'' \<mapsto> public_bytes example_leaf,
                 ''out/foo.chain.pem'' \<mapsto> public_bytes example_root @ public_bytes example_leaf]\<rparr>"

definition ca_host :: host where
  "ca_host = \<lparr>names = [''ca''], ip_addresses = []\<rparr>"

definition ca_host_config :: config where
  "ca_host_config = example_config\<lparr>file_hosts := Some [ca_host]\<rparr>"

definition world_after_ca_host :: world where
  "world_after_ca_host =
     empty_world\<lparr>clock_reads := 1, urandom_reads := 2,
       files := [''out/ca.key.pem'' \<mapsto> private_bytes TraditionalOpenSSL NoEncryption example_ca_key,
                 ''out/ca.cert.pem'' \<mapsto> public_bytes example_root,
                 ''out/ca.chain.pem'' \<mapsto> public_bytes example_root @ public_bytes example_root]\<rparr>"

section \<open>Properties\<close>

subsection \<open>Auxiliary facts\<close>

lemma whole_seconds_le: "whole_seconds t \<le> t"
  by (simp add: whole_seconds_def)

lemma whole_seconds_gt: "t - 1000000 < whole_seconds t"
proof -
  have "t mod 1000000 < 1000000" by simp
  then show ?thesis unfolding whole_seconds_def by linarith
qed

lemma whole_seconds_add_days: "whole_seconds (t + timedelta_days d) = whole_seconds t + timedelta_days d"
  unfolding whole_seconds_def timedelta_days_def by presburger

lemma fresh_ca_cases:
  assumes "files w certificate_file = None"
    and "generate_or_load_ca_certificate cfg certificate_file ca_key w = (Inr cert, w')"
  shows "\<exists>organization subject_name.
           x509_name_item cfg ''organization'' = Inr organization \<and>
           generate_name cfg (organization @ '' CA'') = Inr subject_name \<and>
           cert = sign
             \<lparr>subject = subject_name, issuer = subject_name,
              subject_public_key = public_key ca_key,
              serial_number = fst (random_serial_number (snd (datetime_now w))),
              not_valid_before = fst (datetime_now w),
              not_valid_after = fst (datetime_now w) + timedelta_days ca_validity_days,
              extensions = ca_extensions ca_key\<rparr> ca_key SHA256 \<and>
           w' = write_file certificate_file (public_bytes cert)
                  (snd (random_serial_number (snd (datetime_now w))))"
  using assms
  by (clarsimp simp add: generate_or_load_ca_certificate_def Let_def split: sum.splits prod.splits)

lemma fresh_server_cases:
  assumes "files w certificate_file = None"
    and "generate_or_load_server_certificate cfg certificate_file root_cert root_key host_key
           names_arg w = (Inr cert, w')"
  shows "\<exists>first rest subject_name.
           names_arg = Str first # rest \<and>
           generate_name cfg first = Inr subject_name \<and>
           cert = sign
             \<lparr>subject = subject_name, issuer = subject root_cert,
              subject_public_key = public_key host_key,
              serial_number = fst (random_serial_number (snd (datetime_now w))),
              not_valid_before = fst (datetime_now w),
              not_valid_after = fst (datetime_now w) + timedelta_days server_validity_days,
              extensions = [\<lparr>ext_value = SubjectAlternativeName (map x509_name_of names_arg),
                             critical = False\<rparr>]\<rparr> root_key SHA256 \<and>
           w' = write_file certificate_file (public_bytes cert)
                  (snd (random_serial_number (snd (datetime_now w))))"
  using assms
  by (clarsimp simp add: generate_or_load_server_certificate_def Let_def
      split: sum.splits prod.splits list.splits name_entry.splits)

lemma generate_name_common_name:
  "generate_name cfg cn = Inr name \<Longrightarrow> get_attributes_for_oid COMMON_NAME name = [cn]"
  by (auto simp add: generate_name_def get_attributes_for_oid_def split: sum.splits)


lemma sign_fields:
  "subject (sign b k a) = subject b"
  "issuer (sign b k a) = issuer b"
  "subject_public_key (sign b k a) = subject_public_key b"
  "serial_number (sign b k a) = serial_number b"
  "not_valid_before (sign b k a) = whole_seconds (not_valid_before b)"
  "not_valid_after (sign b k a) = whole_seconds (not_valid_after b)"
  "extensions (sign b k a) = extensions b"
  "signature_hash_algorithm (sign b k a) = a"
  by (simp_all add: sign_def Let_def)

lemma sign_verifies: "verify_signature (public_key k) (sign b k a)"
  by (simp add: verify_signature_def sign_def Let_def tbs_certificate_bytes_def)

lemma sign_signature:
  "signature (sign b k a) = Signature (public_key k) a (tbs_certificate_bytes (sign b k a))"
  by (simp add: sign_def Let_def tbs_certificate_bytes_def)

lemma example_generate_name:
  "generate_name example_config cn =
     Inr [(COUNTRY_NAME, ''GB''), (STATE_OR_PROVINCE_NAME, ''England''),
          (LOCALITY_NAME, ''London''), (ORGANIZATION_NAME, ''Home''), (COMMON_NAME, cn)]"
  by (simp add: generate_name_def x509_name_item_def x509_name_def example_config_def)

lemma example_organization: "x509_name_item example_config ''organization'' = Inr ''Home''"
  by (simp add: x509_name_item_def x509_name_def example_config_def)

lemma load_key_roundtrip:
  "load_pem_private_key (private_bytes fmt NoEncryption k) = Inr k"
  by (simp add: private_bytes_def)

lemma load_certificate_roundtrip:
  "load_pem_x509_certificate (public_bytes c) = Inr c"
  by (simp add: public_bytes_def)

lemma key_present:
  "files w p \<noteq> None \<Longrightarrow> snd (generate_or_load_key p w) = w"
  by (auto simp add: generate_or_load_key_def split: sum.splits)

lemma ca_present:
  "files w p \<noteq> None \<Longrightarrow> snd (generate_or_load_ca_certificate cfg p k w) = w"
  by (auto simp add: generate_or_load_ca_certificate_def)

lemma server_present:
  "files w p \<noteq> None \<Longrightarrow>
     snd (generate_or_load_server_certificate cfg p rc rk hk ns w) = w"
  by (auto simp add: generate_or_load_server_certificate_def)

lemma chain_present:
  "files w p \<noteq> None \<Longrightarrow> write_chain p rc hc w = w"
  by (simp add: write_chain_def exists_path_def)

lemma key_files:
  "files (snd (generate_or_load_key p w)) =
     (case files w p of
        Some data \<Rightarrow> files w
      | None \<Rightarrow> (files w)(p \<mapsto> private_bytes TraditionalOpenSSL NoEncryption
                    (generate_private_key 65537 2048 (fst (os_urandom w)))))"
  by (simp add: generate_or_load_key_def os_urandom_def write_file_def Let_def
      split: option.splits sum.splits)

lemma map_le_fresh: "m p = None \<Longrightarrow> m \<subseteq>\<^sub>m m(p \<mapsto> v)"
  by (auto simp add: map_le_def)

lemma key_map_le: "files w \<subseteq>\<^sub>m files (snd (generate_or_load_key p w))"
  by (simp add: key_files map_le_fresh split: option.splits)

lemma ca_map_le: "files w \<subseteq>\<^sub>m files (snd (generate_or_load_ca_certificate cfg p k w))"
  by (simp add: generate_or_load_ca_certificate_def datetime_now_def random_serial_number_def
      os_urandom_def write_file_def Let_def map_le_fresh split: option.splits sum.splits)

lemma server_map_le:
  "files w \<subseteq>\<^sub>m files (snd (generate_or_load_server_certificate cfg p rc rk hk ns w))"
  by (simp add: generate_or_load_server_certificate_def datetime_now_def
      random_serial_number_def os_urandom_def write_file_def Let_def map_le_fresh
      split: option.splits sum.splits list.splits name_entry.splits)

lemma chain_map_le: "files w \<subseteq>\<^sub>m files (write_chain p rc hc w)"
  by (simp add: write_chain_def exists_path_def write_file_def map_le_fresh)

lemma main_host_map_le:
  "files w \<subseteq>\<^sub>m files (snd (main_host v6 cfg ck cc h w))"
proof (cases "names h")
  case Nil
  then show ?thesis by (simp add: main_host_def)
next
  case (Cons name more)
  show ?thesis
  proof (cases "host_names v6 cfg h")
    case (Inl e)
    with Cons show ?thesis by (simp add: main_host_def)
  next
    case (Inr ns)
    let ?kp = "joinpath (output_path cfg) (name @ ''.key.pem'')"
    let ?cp = "joinpath (output_path cfg) (name @ ''.cert.pem'')"
    let ?hp = "joinpath (output_path cfg) (name @ ''.chain.pem'')"
    obtain r1 w1 where k: "generate_or_load_key ?kp w = (r1, w1)"
      by (cases "generate_or_load_key ?kp w")
    have le1: "files w \<subseteq>\<^sub>m files w1"
      using key_map_le [of w ?kp] k by simp
    show ?thesis
    proof (cases r1)
      case (Inl e)
      with Cons Inr k le1 show ?thesis by (simp add: main_host_def)
    next
      case hk: (Inr host_key)
      obtain r2 w2 where c: "generate_or_load_server_certificate cfg ?cp cc ck host_key ns w1
                               = (r2, w2)"
        by (cases "generate_or_load_server_certificate cfg ?cp cc ck host_key ns w1")
      have le2: "files w1 \<subseteq>\<^sub>m files w2"
        using server_map_le [of w1 cfg ?cp cc ck host_key ns] c by simp
      show ?thesis
      proof (cases r2)
        case (Inl e)
        with Cons Inr k hk c map_le_trans [OF le1 le2] show ?thesis
          by (simp add: main_host_def)
      next
        case hc: (Inr host_cert)
        have "files w2 \<subseteq>\<^sub>m files (write_chain ?hp cc host_cert w2)"
          by (rule chain_map_le)
        with map_le_trans [OF le1 le2] have "files w \<subseteq>\<^sub>m files (write_chain ?hp cc host_cert w2)"
          by (rule map_le_trans)
        with Cons Inr k hk c hc show ?thesis
          by (simp add: main_host_def)
      qed
    qed
  qed
qed

lemma main_hosts_map_le:
  "files w \<subseteq>\<^sub>m files (snd (main_hosts v6 cfg ck cc hs w))"
proof (induction hs arbitrary: w)
  case Nil
  show ?case by simp
next
  case (Cons h hs)
  obtain r1 w1 where s: "main_host v6 cfg ck cc h w = (r1, w1)"
    by (cases "main_host v6 cfg ck cc h w")
  have le1: "files w \<subseteq>\<^sub>m files w1"
    using main_host_map_le [of w v6 cfg ck cc h] s by simp
  show ?case
  proof (cases r1)
    case (Inl e)
    with s le1 show ?thesis by simp
  next
    case (Inr u)
    from Cons.IH [of w1] le1 have "files w \<subseteq>\<^sub>m files (snd (main_hosts v6 cfg ck cc hs w1))"
      by (rule map_le_trans [rotated])
    with s Inr show ?thesis by simp
  qed
qed

lemma main_map_le: "files w \<subseteq>\<^sub>m files (snd (main v6 cfg w))"
proof -
  let ?kp = "joinpath (output_path cfg) ''ca.key.pem''"
  let ?cp = "joinpath (output_path cfg) ''ca.cert.pem''"
  obtain r1 w1 where k: "generate_or_load_key ?kp w = (r1, w1)"
    by (cases "generate_or_load_key ?kp w")
  have le1: "files w \<subseteq>\<^sub>m files w1"
    using key_map_le [of w ?kp] k by simp
  show ?thesis
  proof (cases r1)
    case (Inl e)
    with k le1 show ?thesis by (simp add: main_def)
  next
    case ck: (Inr ca_key)
    obtain r2 w2 where c: "generate_or_load_ca_certificate cfg ?cp ca_key w1 = (r2, w2)"
      by (cases "generate_or_load_ca_certificate cfg ?cp ca_key w1")
    have le2: "files w \<subseteq>\<^sub>m files w2"
      using ca_map_le [of w1 cfg ?cp ca_key] c le1 by (auto intro: map_le_trans)
    show ?thesis
    proof (cases r2)
      case (Inl e)
      with k ck c le2 show ?thesis by (simp add: main_def)
    next
      case cc: (Inr ca_cert)
      show ?thesis
      proof (cases "hosts cfg")
        case (Inl e)
        with k ck c cc le2 show ?thesis by (simp add: main_def)
      next
        case (Inr hs)
        have "files w2 \<subseteq>\<^sub>m files (snd (main_hosts v6 cfg ca_key ca_cert hs w2))"
          by (rule main_hosts_map_le)
        with le2 have "files w \<subseteq>\<^sub>m files (snd (main_hosts v6 cfg ca_key ca_cert hs w2))"
          by (rule map_le_trans)
        with k ck c cc Inr show ?thesis by (simp add: main_def)
      qed
    qed
  qed
qed

lemma key_again:
  assumes "generate_or_load_key p w = (Inr k, w1)"
  shows "generate_or_load_key p w1 = (Inr k, w1)"
proof (cases "files w p")
  case None
  with assms have k: "k = generate_private_key 65537 2048 (fst (os_urandom w))"
    and w1: "w1 = write_file p (private_bytes TraditionalOpenSSL NoEncryption k) (snd (os_urandom w))"
    by (auto simp add: generate_or_load_key_def Let_def split: prod.splits)
  have "files w1 p = Some (private_bytes TraditionalOpenSSL NoEncryption k)"
    by (simp add: w1 write_file_def)
  moreover have "is_rsa k"
    by (simp add: k generate_private_key_def)
  ultimately show ?thesis
    by (simp add: generate_or_load_key_def load_key_roundtrip)
next
  case (Some data)
  with assms have "w1 = w"
    by (auto simp add: generate_or_load_key_def split: sum.splits if_splits)
  with assms show ?thesis by simp
qed

lemma key_stored:
  assumes "generate_or_load_key p w = (Inr k, w1)"
  shows "\<exists>data. files w1 p = Some data \<and> load_pem_private_key data = Inr k \<and> is_rsa k"
proof (cases "files w p")
  case None
  with assms have k: "k = generate_private_key 65537 2048 (fst (os_urandom w))"
    and w1: "w1 = write_file p (private_bytes TraditionalOpenSSL NoEncryption k) (snd (os_urandom w))"
    by (auto simp add: generate_or_load_key_def Let_def split: prod.splits)
  show ?thesis
    by (simp add: w1 write_file_def load_key_roundtrip) (simp add: k generate_private_key_def)
next
  case (Some data)
  with assms show ?thesis
    by (auto simp add: generate_or_load_key_def split: sum.splits if_splits)
qed

lemma ca_stored:
  assumes "generate_or_load_ca_certificate cfg p k w = (Inr c, w1)"
  shows "\<exists>data. files w1 p = Some data \<and> load_pem_x509_certificate data = Inr c"
proof (cases "files w p")
  case None
  from fresh_ca_cases [OF None assms] obtain w0 where
    "w1 = write_file p (public_bytes c) w0"
    by blast
  then show ?thesis
    by (simp add: write_file_def load_certificate_roundtrip)
next
  case (Some data)
  with assms show ?thesis
    by (auto simp add: generate_or_load_ca_certificate_def)
qed

lemma server_stored:
  assumes "generate_or_load_server_certificate cfg p rc rk hk ns w = (Inr c, w1)"
  shows "\<exists>data. files w1 p = Some data \<and> load_pem_x509_certificate data = Inr c"
proof (cases "files w p")
  case None
  from fresh_server_cases [OF None assms] obtain w0 where
    "w1 = write_file p (public_bytes c) w0"
    by blast
  then show ?thesis
    by (simp add: write_file_def load_certificate_roundtrip)
next
  case (Some data)
  with assms show ?thesis
    by (auto simp add: generate_or_load_server_certificate_def)
qed

lemma ca_again:
  assumes "generate_or_load_ca_certificate cfg p k w = (Inr c, w1)"
  shows "generate_or_load_ca_certificate cfg p k w1 = (Inr c, w1)"
  using ca_stored [OF assms] by (auto simp add: generate_or_load_ca_certificate_def)

lemma server_again:
  assumes "generate_or_load_server_certificate cfg p rc rk hk ns w = (Inr c, w1)"
  shows "generate_or_load_server_certificate cfg p rc rk hk ns w1 = (Inr c, w1)"
  using server_stored [OF assms] by (auto simp add: generate_or_load_server_certificate_def)

lemma chain_again: "write_chain p rc hc (write_chain p rc hc w) = write_chain p rc hc w"
  by (simp add: write_chain_def exists_path_def write_file_def)

lemma key_other_path:
  "q \<noteq> p \<Longrightarrow> files (snd (generate_or_load_key p w)) q = files w q"
  by (simp add: key_files split: option.splits)

lemma server_other_path:
  "q \<noteq> p \<Longrightarrow>
     files (snd (generate_or_load_server_certificate cfg p rc rk hk ns w)) q = files w q"
  by (simp add: generate_or_load_server_certificate_def datetime_now_def
      random_serial_number_def os_urandom_def write_file_def Let_def
      split: option.splits sum.splits list.splits name_entry.splits)

lemma ca_other_path:
  "q \<noteq> p \<Longrightarrow>
     files (snd (generate_or_load_ca_certificate cfg p k w)) q = files w q"
  by (simp add: generate_or_load_ca_certificate_def datetime_now_def
      random_serial_number_def os_urandom_def write_file_def Let_def
      split: option.splits sum.splits)

lemma chain_other_path:
  "q \<noteq> p \<Longrightarrow> files (write_chain p rc hc w) q = files w q"
  by (simp add: write_chain_def write_file_def)

lemma main_host_success:
  assumes "main_host v6 cfg ck cc h w = (Inr u, w')"
  shows "\<exists>name more ns host_key w1 host_cert w2.
           names h = name # more \<and>
           host_names v6 cfg h = Inr ns \<and>
           generate_or_load_key (joinpath (output_path cfg) (name @ ''.key.pem'')) w
             = (Inr host_key, w1) \<and>
           generate_or_load_server_certificate cfg
             (joinpath (output_path cfg) (name @ ''.cert.pem'')) cc ck host_key ns w1
             = (Inr host_cert, w2) \<and>
           w' = write_chain (joinpath (output_path cfg) (name @ ''.chain.pem'')) cc host_cert w2"
  using assms
  by (simp add: main_host_def split: list.splits sum.splits prod.splits)

lemma host_paths_differ:
  "joinpath d (n @ ''.key.pem'') \<noteq> joinpath d (n @ ''.chain.pem'')"
  "joinpath d (n @ ''.cert.pem'') \<noteq> joinpath d (n @ ''.chain.pem'')"
  "joinpath d (n @ ''.key.pem'') \<noteq> joinpath d (n @ ''.cert.pem'')"
  by (simp_all add: joinpath_def)

lemma split_example: "split_on (CHR ''.'') ''10.0.0.5'' = [''10'', ''0'', ''0'', ''5'']"
  by simp

lemma octet_examples:
  "parse_octet ''10'' = Some 10"
  "parse_octet ''0'' = Some 0"
  "parse_octet ''5'' = Some 5"
  by (simp_all add: parse_octet_def is_ascii_digit_def int_of_digits_def)

lemma ipv4_example: "ipv4_from_string ''10.0.0.5'' = Some 167772165"
  by (simp add: ipv4_from_string_def split_example octet_examples del: split_on.simps)

lemma example_host_names:
  "host_names v6 example_config example_host =
     Inr [Str ''foo.example.com'', Str ''foo-alt.example.com'', Addr (IPv4Address 167772165)]"
  by (simp add: host_names_def example_host_def ip_address_def ipv4_example domain_def
      example_config_def)

lemma example_output_path: "output_path example_config = ''out''"
  by (simp add: output_path_def example_config_def)

lemma example_hosts: "hosts example_config = Inr [example_host]"
  by (simp add: hosts_def example_config_def example_host_def)

lemma run_root_key:
  "generate_or_load_key ''out/ca.key.pem'' empty_world =
     (Inr example_ca_key, world_after_root_key)"
  by (simp add: generate_or_load_key_def empty_world_def os_urandom_def Let_def
      generate_private_key_def example_ca_key_def example_urandom_def write_file_def
      world_after_root_key_def)

lemma run_root_cert:
  "generate_or_load_ca_certificate example_config ''out/ca.cert.pem'' example_ca_key
     world_after_root_key = (Inr example_root, world_after_root)"
  by (simp add: generate_or_load_ca_certificate_def world_after_root_key_def empty_world_def
      os_urandom_def Let_def
      random_serial_number_def datetime_now_def example_clock_def example_urandom_def
      write_file_def example_generate_name example_organization example_root_def
      world_after_root_def timedelta_days_def ca_validity_days_def example_ca_key_def
      fun_upd_twist)

lemma run_host_key:
  "generate_or_load_key ''out/foo.key.pem'' world_after_root =
     (Inr example_host_key,
      world_after_root\<lparr>urandom_reads := 3,
        files := (files world_after_root)(''out/foo.key.pem'' \<mapsto>
                   private_bytes TraditionalOpenSSL NoEncryption example_host_key)\<rparr>)"
  by (simp add: generate_or_load_key_def world_after_root_def empty_world_def os_urandom_def
      Let_def generate_private_key_def example_host_key_def example_urandom_def write_file_def)

lemma run_host_cert:
  "generate_or_load_server_certificate example_config ''out/foo.cert.pem'' example_root
     example_ca_key example_host_key
     [Str ''foo.example.com'', Str ''foo-alt.example.com'', Addr (IPv4Address 167772165)]
     (world_after_root\<lparr>urandom_reads := 3,
        files := (files world_after_root)(''out/foo.key.pem'' \<mapsto>
                   private_bytes TraditionalOpenSSL NoEncryption example_host_key)\<rparr>)
   = (Inr example_leaf,
      world_after_root\<lparr>clock_reads := 2, urandom_reads := 4,
        files := (files world_after_root)
          (''out/foo.key.pem'' \<mapsto> private_bytes TraditionalOpenSSL NoEncryption example_host_key,
           ''out/foo.cert.pem'' \<mapsto> public_bytes example_leaf)\<rparr>)"
  by (simp add: generate_or_load_server_certificate_def world_after_root_def empty_world_def
      os_urandom_def Let_def random_serial_number_def datetime_now_def example_clock_def
      example_urandom_def write_file_def example_generate_name example_leaf_def
      timedelta_days_def server_validity_days_def example_host_key_def)

lemma run_host_chain:
  "write_chain ''out/foo.chain.pem'' example_root example_leaf
     (world_after_root\<lparr>clock_reads := 2, urandom_reads := 4,
        files := (files world_after_root)
          (''out/foo.key.pem'' \<mapsto> private_bytes TraditionalOpenSSL NoEncryption example_host_key,
           ''out/foo.cert.pem'' \<mapsto> public_bytes example_leaf)\<rparr>)
   = world_after_host"
  by (simp add: write_chain_def exists_path_def write_file_def serialize_certificate_def
      world_after_root_def world_after_host_def empty_world_def)

lemma example_paths:
  "joinpath (output_path example_config) ''ca.key.pem'' = ''out/ca.key.pem''"
  "joinpath (output_path example_config) ''ca.cert.pem'' = ''out/ca.cert.pem''"
  "joinpath (output_path example_config) (''foo'' @ ''.key.pem'') = ''out/foo.key.pem''"
  "joinpath (output_path example_config) (''foo'' @ ''.cert.pem'') = ''out/foo.cert.pem''"
  "joinpath (output_path example_config) (''foo'' @ ''.chain.pem'') = ''out/foo.chain.pem''"
  by (simp_all add: joinpath_def example_output_path)

lemma example_host_first: "names example_host = ''foo'' # [''foo-alt'']"
  by (simp add: example_host_def)

lemma run_host:
  "main_host v6 example_config example_ca_key example_root example_host world_after_root
     = (Inr (), world_after_host)"
  by (simp only: main_host_def example_host_first list.case example_host_names sum.case
      example_paths run_host_key prod.case run_host_cert run_host_chain)

lemma run_main: "main v6 example_config empty_world = (Inr (), world_after_host)"
  by (simp only: main_def example_paths run_root_key prod.case sum.case run_root_cert
      example_hosts main_hosts.simps run_host)

lemma generate_name_organization:
  "generate_name cfg cn = Inr name \<Longrightarrow> x509_name_item cfg ''organization'' = Inr org \<Longrightarrow>
     get_attributes_for_oid ORGANIZATION_NAME name = [org]"
  by (auto simp add: generate_name_def get_attributes_for_oid_def split: sum.splits)

lemma ca_host_organization:
  "x509_name_item ca_host_config key = x509_name_item example_config key"
  by (simp add: x509_name_item_def x509_name_def ca_host_config_def)

lemma ca_host_generate_name:
  "generate_name ca_host_config cn =
     Inr [(COUNTRY_NAME, ''GB''), (STATE_OR_PROVINCE_NAME, ''England''),
          (LOCALITY_NAME, ''London''), (ORGANIZATION_NAME, ''Home''), (COMMON_NAME, cn)]"
  by (simp add: generate_name_def x509_name_item_def x509_name_def ca_host_config_def
      example_config_def)

lemma ca_host_paths:
  "joinpath (output_path ca_host_config) ''ca.key.pem'' = ''out/ca.key.pem''"
  "joinpath (output_path ca_host_config) ''ca.cert.pem'' = ''out/ca.cert.pem''"
  "joinpath (output_path ca_host_config) (''ca'' @ ''.key.pem'') = ''out/ca.key.pem''"
  "joinpath (output_path ca_host_config) (''ca'' @ ''.cert.pem'') = ''out/ca.cert.pem''"
  "joinpath (output_path ca_host_config) (''ca'' @ ''.chain.pem'') = ''out/ca.chain.pem''"
  by (simp_all add: joinpath_def output_path_def ca_host_config_def example_config_def)

lemma ca_host_root_cert:
  "generate_or_load_ca_certificate ca_host_config ''out/ca.cert.pem'' example_ca_key
     world_after_root_key = (Inr example_root, world_after_root)"
  by (simp add: generate_or_load_ca_certificate_def world_after_root_key_def empty_world_def
      os_urandom_def Let_def
      random_serial_number_def datetime_now_def example_clock_def example_urandom_def
      write_file_def ca_host_generate_name ca_host_organization example_organization
      example_root_def world_after_root_def timedelta_days_def ca_validity_days_def
      example_ca_key_def fun_upd_twist)

lemma ca_host_names: "host_names v6 ca_host_config ca_host = Inr [Str ''ca.example.com'']"
  by (simp add: host_names_def ca_host_def domain_def ca_host_config_def example_config_def)

lemma ca_host_key:
  "generate_or_load_key ''out/ca.key.pem'' world_after_root = (Inr example_ca_key, world_after_root)"
  by (simp add: generate_or_load_key_def world_after_root_def private_bytes_def example_ca_key_def)

lemma ca_host_cert:
  "generate_or_load_server_certificate ca_host_config ''out/ca.cert.pem'' example_root
     example_ca_key example_ca_key [Str ''ca.example.com''] world_after_root
   = (Inr example_root, world_after_root)"
  by (simp add: generate_or_load_server_certificate_def world_after_root_def public_bytes_def)

lemma ca_host_chain:
  "write_chain ''out/ca.chain.pem'' example_root example_root world_after_root = world_after_ca_host"
  by (simp add: write_chain_def exists_path_def write_file_def serialize_certificate_def
      world_after_root_def world_after_ca_host_def empty_world_def)

lemma ca_host_first: "names ca_host = ''ca'' # []"
  by (simp add: ca_host_def)

lemma ca_host_hosts: "hosts ca_host_config = Inr [ca_host]"
  by (simp add: hosts_def ca_host_config_def)

lemma ca_host_step:
  "main_host v6 ca_host_config example_ca_key example_root ca_host world_after_root
     = (Inr (), world_after_ca_host)"
  by (simp only: main_host_def ca_host_first list.case ca_host_names sum.case
      ca_host_paths ca_host_key prod.case ca_host_cert ca_host_chain)

lemma ca_host_main: "main v6 ca_host_config empty_world = (Inr (), world_after_ca_host)"
  by (simp only: main_def ca_host_paths run_root_key prod.case sum.case ca_host_root_cert
      ca_host_hosts main_hosts.simps ca_host_step)

text \<open>
  What holds of a server certificate that is generated, whatever the host is called: it is
  issued under the root's subject, carries the public key of the host key it was given and
  has no extension other than the subject alternative name. A key that is generated has
  the next random value as its seed.
\<close>

lemma fresh_leaf_links_to_root:
  assumes "files w certificate_file = None"
    and "generate_or_load_server_certificate cfg certificate_file root_cert root_key host_key
           names_arg w = (Inr cert, w')"
  shows "issuer cert = subject root_cert \<and>
         subject_public_key cert = public_key host_key \<and>
         verify_signature (public_key root_key) cert \<and>
         (\<forall>ext \<in> set (extensions cert). \<exists>san. ext_value ext = SubjectAlternativeName san)"
  using fresh_server_cases [OF assms]
  by (auto simp add: sign_fields sign_verifies)

lemma fresh_key_seed:
  assumes "files w key_file = None"
    and "generate_or_load_key key_file w = (Inr k, w')"
  shows "public_key k = RSAPublicKey 65537 2048 (urandom w (urandom_reads w))"
  using assms
  by (auto simp add: generate_or_load_key_def os_urandom_def generate_private_key_def Let_def)

subsection \<open>Keys\<close>

text \<open>
  Claim C8. A key that \<open>generate_or_load_key\<close> generates (the path does not exist) is an
  RSA key of 2048 bits with public exponent 65537; the file then holds its unencrypted PEM
  encoding and nothing else, no other file is touched, and the key returned is the key
  that the file decodes to.
\<close>

theorem fresh_key_shape:
  assumes "files w key_file = None"
  shows "\<exists>private_key w'.
           generate_or_load_key key_file w = (Inr private_key, w') \<and>
           is_rsa private_key \<and>
           key_size private_key = 2048 \<and>
           public_exponent private_key = 65537 \<and>
           files w' key_file = Some [PrivateKeyBlock TraditionalOpenSSL NoEncryption private_key] \<and>
           (\<exists>data. files w' key_file = Some data \<and> load_pem_private_key data = Inr private_key) \<and>
           (\<forall>p. p \<noteq> key_file \<longrightarrow> files w' p = files w p)"
  using assms
  by (simp add: generate_or_load_key_def os_urandom_def generate_private_key_def
      write_file_def private_bytes_def Let_def)

theorem fresh_key_shape_witness:
  "files empty_world ''out/ca.key.pem'' = None \<and>
   (\<exists>private_key w'.
      generate_or_load_key ''out/ca.key.pem'' empty_world = (Inr private_key, w') \<and>
      is_rsa private_key \<and>
      key_size private_key = 2048 \<and>
      public_exponent private_key = 65537 \<and>
      files w' ''out/ca.key.pem'' =
        Some [PrivateKeyBlock TraditionalOpenSSL NoEncryption private_key] \<and>
      (\<exists>data. files w' ''out/ca.key.pem'' = Some data \<and>
              load_pem_private_key data = Inr private_key) \<and>
      (\<forall>p. p \<noteq> ''out/ca.key.pem'' \<longrightarrow> files w' p = files empty_world p))"
proof -
  have absent: "files empty_world ''out/ca.key.pem'' = None"
    by (simp add: empty_world_def)
  from fresh_key_shape [OF absent] absent show ?thesis
    by blast
qed

text \<open>
  Claim C9. When the path exists and its content decodes to an unencrypted private key,
  \<open>generate_or_load_key\<close> raises \<^verbatim>\<open>ValueError('Invalid key type')\<close> if the key is not an
  RSA key, and returns the key if it is one, whatever its size and exponent; in both cases
  the world is left as it was.
\<close>

theorem load_key_checks_type_only:
  assumes "files w key_file = Some data"
    and "load_pem_private_key data = Inr private_key"
  shows "generate_or_load_key key_file w =
           (if is_rsa private_key then Inr private_key
            else Inl (ValueError ''Invalid key type''), w)"
  using assms by (simp add: generate_or_load_key_def)

theorem load_key_checks_type_only_witness:
  "files weak_key_world ''k.pem'' = Some [PrivateKeyBlock PKCS8 NoEncryption weak_rsa_key] \<and>
   load_pem_private_key [PrivateKeyBlock PKCS8 NoEncryption weak_rsa_key] = Inr weak_rsa_key \<and>
   generate_or_load_key ''k.pem'' weak_key_world = (Inr (RSAPrivateKey 3 512 42), weak_key_world) \<and>
   files ec_key_world ''k.pem'' = Some [PrivateKeyBlock PKCS8 NoEncryption (ECPrivateKey 7)] \<and>
   load_pem_private_key [PrivateKeyBlock PKCS8 NoEncryption (ECPrivateKey 7)] = Inr (ECPrivateKey 7) \<and>
   generate_or_load_key ''k.pem'' ec_key_world =
     (Inl (ValueError ''Invalid key type''), ec_key_world)"
proof -
  have f1: "files weak_key_world ''k.pem'' = Some [PrivateKeyBlock PKCS8 NoEncryption weak_rsa_key]"
    by (simp add: weak_key_world_def)
  have l1: "load_pem_private_key [PrivateKeyBlock PKCS8 NoEncryption weak_rsa_key] = Inr weak_rsa_key"
    by simp
  have f2: "files ec_key_world ''k.pem'' = Some [PrivateKeyBlock PKCS8 NoEncryption (ECPrivateKey 7)]"
    by (simp add: ec_key_world_def)
  have l2: "load_pem_private_key [PrivateKeyBlock PKCS8 NoEncryption (ECPrivateKey 7)] = Inr (ECPrivateKey 7)"
    by simp
  from load_key_checks_type_only [OF f1 l1] load_key_checks_type_only [OF f2 l2] f1 l1 f2 l2
  show ?thesis
    by (simp add: weak_rsa_key_def)
qed


subsection \<open>The root certificate\<close>

text \<open>
  Claim C5. A root certificate that \<open>generate_or_load_ca_certificate\<close> generates (the path
  does not exist and the call returns) has the same subject and issuer, with the one common
  name \<open>organization @ '' CA''\<close>; its extensions are, in this order and only these, the
  critical basic constraints of a CA without a path length, the critical key usage with
  digital signature, certificate signing and CRL signing and no other bit, and the
  non-critical subject key identifier of its own public key; its public key is that of the
  root key, it is signed with SHA-256 by the root key, and the signature verifies against
  the public key the certificate carries.
\<close>

theorem fresh_root_certificate:
  assumes "files w certificate_file = None"
    and "generate_or_load_ca_certificate cfg certificate_file ca_key w = (Inr cert, w')"
  shows "subject cert = issuer cert \<and>
         (\<exists>organization.
            x509_name_item cfg ''organization'' = Inr organization \<and>
            get_attributes_for_oid COMMON_NAME (subject cert) = [organization @ '' CA'']) \<and>
         extensions cert =
           [\<lparr>ext_value = BasicConstraints True None, critical = True\<rparr>,
            \<lparr>ext_value = KeyUsage
               \<lparr>digital_signature = True, content_commitment = False,
                key_encipherment = False, data_encipherment = False,
                key_agreement = False, key_cert_sign = True, crl_sign = True,
                encipher_only = False, decipher_only = False\<rparr>,
              critical = True\<rparr>,
            \<lparr>ext_value = SubjectKeyIdentifier (SHA1_of (subject_public_key cert)),
              critical = False\<rparr>] \<and>
         subject_public_key cert = public_key ca_key \<and>
         signature_hash_algorithm cert = SHA256 \<and>
         signature cert = Signature (public_key ca_key) SHA256 (tbs_certificate_bytes cert) \<and>
         verify_signature (subject_public_key cert) cert"
proof -
  from fresh_ca_cases [OF assms] obtain organization subject_name where
    org: "x509_name_item cfg ''organization'' = Inr organization" and
    name: "generate_name cfg (organization @ '' CA'') = Inr subject_name" and
    cert: "cert = sign
             \<lparr>subject = subject_name, issuer = subject_name,
              subject_public_key = public_key ca_key,
              serial_number = fst (random_serial_number (snd (datetime_now w))),
              not_valid_before = fst (datetime_now w),
              not_valid_after = fst (datetime_now w) + timedelta_days ca_validity_days,
              extensions = ca_extensions ca_key\<rparr> ca_key SHA256"
    by blast
  have cn: "get_attributes_for_oid COMMON_NAME (subject cert) = [organization @ '' CA'']"
    using generate_name_common_name [OF name] by (simp add: cert sign_fields)
  have ext: "extensions cert = ca_extensions ca_key"
    by (simp add: cert sign_fields)
  have pk: "subject_public_key cert = public_key ca_key"
    by (simp add: cert sign_fields)
  have sig: "signature cert = Signature (public_key ca_key) SHA256 (tbs_certificate_bytes cert)"
    unfolding cert by (rule sign_signature)
  have ver: "verify_signature (public_key ca_key) cert"
    unfolding cert by (rule sign_verifies)
  show ?thesis
    using org cn pk sig ver
    by (simp add: ext ca_extensions_def from_public_key_def) (simp add: cert sign_fields)
qed

theorem fresh_root_certificate_witness:
  "files empty_world ''out/ca.cert.pem'' = None \<and>
   (\<exists>cert w'.
      generate_or_load_ca_certificate example_config ''out/ca.cert.pem'' example_ca_key
        empty_world = (Inr cert, w') \<and>
      subject cert = issuer cert \<and>
      get_attributes_for_oid COMMON_NAME (subject cert) = [''Home CA''] \<and>
      length (extensions cert) = 3 \<and>
      subject_public_key cert = RSAPublicKey 65537 2048 7919 \<and>
      signature_hash_algorithm cert = SHA256 \<and>
      verify_signature (subject_public_key cert) cert)"
proof -
  have absent: "files empty_world ''out/ca.cert.pem'' = None"
    by (simp add: empty_world_def)
  have "\<exists>cert w'. generate_or_load_ca_certificate example_config ''out/ca.cert.pem''
          example_ca_key empty_world = (Inr cert, w')"
    by (simp add: generate_or_load_ca_certificate_def absent example_generate_name
        example_organization Let_def split: prod.splits)
  then obtain cert w' where
    run: "generate_or_load_ca_certificate example_config ''out/ca.cert.pem''
            example_ca_key empty_world = (Inr cert, w')"
    by blast
  from fresh_root_certificate [OF absent run] absent run show ?thesis
    by (auto simp add: example_organization example_ca_key_def)
qed

subsection \<open>Validity\<close>

text \<open>
  Claim C6. Let the generation time be the reading of the clock that the call takes. A
  root certificate that is generated is valid for at most 825 days, a server certificate
  that is generated for at most 398 days, and for both the generation time is not before
  the start of the validity and is before its end.
\<close>

theorem validity_bounds:
  "(files w ca_file = None \<longrightarrow>
    generate_or_load_ca_certificate cfg ca_file ca_key w = (Inr ca_cert, w') \<longrightarrow>
      not_valid_after ca_cert - not_valid_before ca_cert \<le> timedelta_days 825 \<and>
      not_valid_before ca_cert \<le> fst (datetime_now w) \<and>
      fst (datetime_now w) < not_valid_after ca_cert) \<and>
   (files v host_file = None \<longrightarrow>
    generate_or_load_server_certificate cfg host_file root_cert root_key host_key names_arg v
      = (Inr host_cert, v') \<longrightarrow>
      not_valid_after host_cert - not_valid_before host_cert \<le> timedelta_days 398 \<and>
      not_valid_before host_cert \<le> fst (datetime_now v) \<and>
      fst (datetime_now v) < not_valid_after host_cert)"
proof (intro conjI impI)
  assume a: "files w ca_file = None"
    "generate_or_load_ca_certificate cfg ca_file ca_key w = (Inr ca_cert, w')"
  from fresh_ca_cases [OF a] have
    nb: "not_valid_before ca_cert = whole_seconds (fst (datetime_now w))" and
    na: "not_valid_after ca_cert = whole_seconds (fst (datetime_now w)) + timedelta_days 825"
    by (auto simp add: sign_fields whole_seconds_add_days ca_validity_days_def)
  show "not_valid_after ca_cert - not_valid_before ca_cert \<le> timedelta_days 825"
    by (simp add: nb na)
  show "not_valid_before ca_cert \<le> fst (datetime_now w)"
    by (simp add: nb whole_seconds_le)
  show "fst (datetime_now w) < not_valid_after ca_cert"
    using whole_seconds_gt [of "fst (datetime_now w)"]
    by (simp add: na timedelta_days_def)
next
  assume a: "files v host_file = None"
    "generate_or_load_server_certificate cfg host_file root_cert root_key host_key names_arg v
      = (Inr host_cert, v')"
  from fresh_server_cases [OF a] have
    nb: "not_valid_before host_cert = whole_seconds (fst (datetime_now v))" and
    na: "not_valid_after host_cert = whole_seconds (fst (datetime_now v)) + timedelta_days 398"
    by (auto simp add: sign_fields whole_seconds_add_days server_validity_days_def)
  show "not_valid_after host_cert - not_valid_before host_cert \<le> timedelta_days 398"
    by (simp add: nb na)
  show "not_valid_before host_cert \<le> fst (datetime_now v)"
    by (simp add: nb whole_seconds_le)
  show "fst (datetime_now v) < not_valid_after host_cert"
    using whole_seconds_gt [of "fst (datetime_now v)"]
    by (simp add: na timedelta_days_def)
qed

theorem validity_bounds_witness:
  "files empty_world ''out/ca.cert.pem'' = None \<and>
   files empty_world ''out/foo.cert.pem'' = None \<and>
   (\<exists>ca_cert w' host_cert v'.
      generate_or_load_ca_certificate example_config ''out/ca.cert.pem'' example_ca_key
        empty_world = (Inr ca_cert, w') \<and>
      generate_or_load_server_certificate example_config ''out/foo.cert.pem''
        stored_certificate example_ca_key weak_rsa_key [Str ''foo.example.com'']
        empty_world = (Inr host_cert, v') \<and>
      not_valid_after ca_cert - not_valid_before ca_cert \<le> timedelta_days 825 \<and>
      not_valid_before ca_cert \<le> 1762262400123456 \<and>
      1762262400123456 < not_valid_after ca_cert \<and>
      not_valid_after host_cert - not_valid_before host_cert \<le> timedelta_days 398 \<and>
      not_valid_before host_cert \<le> 1762262400123456 \<and>
      1762262400123456 < not_valid_after host_cert)"
proof -
  have absent: "files empty_world ''out/ca.cert.pem'' = None"
    "files empty_world ''out/foo.cert.pem'' = None"
    by (simp_all add: empty_world_def)
  have "\<exists>cert w'. generate_or_load_ca_certificate example_config ''out/ca.cert.pem''
          example_ca_key empty_world = (Inr cert, w')"
    by (simp add: generate_or_load_ca_certificate_def absent example_generate_name
        example_organization Let_def split: prod.splits)
  then obtain ca_cert w' where
    run1: "generate_or_load_ca_certificate example_config ''out/ca.cert.pem''
             example_ca_key empty_world = (Inr ca_cert, w')"
    by blast
  have "\<exists>cert w'. generate_or_load_server_certificate example_config ''out/foo.cert.pem''
          stored_certificate example_ca_key weak_rsa_key [Str ''foo.example.com'']
          empty_world = (Inr cert, w')"
    by (simp add: generate_or_load_server_certificate_def absent example_generate_name
        Let_def split: prod.splits)
  then obtain host_cert v' where
    run2: "generate_or_load_server_certificate example_config ''out/foo.cert.pem''
             stored_certificate example_ca_key weak_rsa_key [Str ''foo.example.com'']
             empty_world = (Inr host_cert, v')"
    by blast
  have now: "fst (datetime_now empty_world) = 1762262400123456"
    by (simp add: datetime_now_def empty_world_def example_clock_def)
  from validity_bounds [of empty_world "''out/ca.cert.pem''" example_config example_ca_key
      ca_cert w' empty_world "''out/foo.cert.pem''" stored_certificate example_ca_key
      weak_rsa_key "[Str ''foo.example.com'']" host_cert v']
    absent run1 run2 now
  show ?thesis
    by auto
qed

subsection \<open>Server certificates\<close>

text \<open>
  Claim C10. A server certificate that \<open>generate_or_load_server_certificate\<close> generates
  has exactly one extension, the non-critical subject alternative name (so no basic
  constraints, no key usage, no subject key identifier); its entries are the elements of
  \<open>names\<close> in their order, a string as a DNS name and an address as an IP address.
\<close>

theorem fresh_server_certificate_extensions:
  assumes "files w certificate_file = None"
    and "generate_or_load_server_certificate cfg certificate_file root_cert root_key host_key
           names_arg w = (Inr cert, w')"
  shows "\<exists>san.
           extensions cert = [\<lparr>ext_value = SubjectAlternativeName san, critical = False\<rparr>] \<and>
           length san = length names_arg \<and>
           (\<forall>i < length names_arg.
              san ! i = (case names_arg ! i of Str s \<Rightarrow> DNSName s | Addr a \<Rightarrow> IPAddress a))"
proof -
  from fresh_server_cases [OF assms] have
    ext: "extensions cert =
            [\<lparr>ext_value = SubjectAlternativeName (map x509_name_of names_arg), critical = False\<rparr>]"
    by (auto simp add: sign_fields)
  have "\<forall>i < length names_arg.
          map x509_name_of names_arg ! i =
            (case names_arg ! i of Str s \<Rightarrow> DNSName s | Addr a \<Rightarrow> IPAddress a)"
    by (simp split: name_entry.splits)
  with ext show ?thesis by simp
qed

theorem fresh_server_certificate_extensions_witness:
  "files empty_world ''out/foo.cert.pem'' = None \<and>
   (\<exists>cert w'.
      generate_or_load_server_certificate example_config ''out/foo.cert.pem''
        stored_certificate example_ca_key weak_rsa_key
        [Str ''foo.example.com'', Addr (IPv4Address 167772165), Str ''foo-alt.example.com'']
        empty_world = (Inr cert, w') \<and>
      extensions cert =
        [\<lparr>ext_value = SubjectAlternativeName
            [DNSName ''foo.example.com'', IPAddress (IPv4Address 167772165),
             DNSName ''foo-alt.example.com''],
          critical = False\<rparr>])"
proof -
  have absent: "files empty_world ''out/foo.cert.pem'' = None"
    by (simp add: empty_world_def)
  have "\<exists>cert w'. generate_or_load_server_certificate example_config ''out/foo.cert.pem''
          stored_certificate example_ca_key weak_rsa_key
          [Str ''foo.example.com'', Addr (IPv4Address 167772165), Str ''foo-alt.example.com'']
          empty_world = (Inr cert, w')"
    by (simp add: generate_or_load_server_certificate_def absent example_generate_name
        Let_def split: prod.splits)
  then obtain cert w' where
    run: "generate_or_load_server_certificate example_config ''out/foo.cert.pem''
            stored_certificate example_ca_key weak_rsa_key
            [Str ''foo.example.com'', Addr (IPv4Address 167772165), Str ''foo-alt.example.com'']
            empty_world = (Inr cert, w')"
    by blast
  from fresh_server_certificate_extensions [OF absent run] obtain san where
    san: "extensions cert = [\<lparr>ext_value = SubjectAlternativeName san, critical = False\<rparr>]"
      "length san = 3"
      "\<forall>i < 3. san ! i =
         (case [Str ''foo.example.com'', Addr (IPv4Address 167772165),
                Str ''foo-alt.example.com''] ! i of
            Str s \<Rightarrow> DNSName s | Addr a \<Rightarrow> IPAddress a)"
    by auto
  from san(3) have "san ! 0 = DNSName ''foo.example.com''"
    "san ! 1 = IPAddress (IPv4Address 167772165)"
    "san ! 2 = DNSName ''foo-alt.example.com''"
    by (simp_all add: numeral_3_eq_3)
  with san(2) have "san = [DNSName ''foo.example.com'', IPAddress (IPv4Address 167772165),
      DNSName ''foo-alt.example.com'']"
    by (cases san; simp add: length_Suc_conv numeral_3_eq_3) auto
  with san(1) absent run show ?thesis
    by blast
qed

text \<open>
  Claim C3, as stated, fails: \<open>generate_or_load_server_certificate\<close> looks at the path
  before it looks at \<open>names\<close>, so with the path present and an address as the first name it
  returns the stored certificate and raises nothing.
\<close>

theorem load_skips_name_check_counterexample:
  "generate_or_load_server_certificate example_config ''out/foo.cert.pem'' stored_certificate
     example_ca_key weak_rsa_key [Addr (IPv4Address 167772161)] stored_cert_world
   = (Inr stored_certificate, stored_cert_world)"
  by (simp add: generate_or_load_server_certificate_def stored_cert_world_def public_bytes_def)

text \<open>
  Claim C3, amended. When the first element of \<open>names\<close> is an address, no file is written;
  if the path does not exist the call raises
  \<^verbatim>\<open>ValueError('First name must be a string not an IP address')\<close>, and if the path exists
  the call returns what the file decodes to, without looking at \<open>names\<close>.
\<close>

theorem address_first_writes_nothing:
  assumes "names_arg = Addr a # rest"
  shows "files (snd (generate_or_load_server_certificate cfg certificate_file root_cert root_key
                       host_key names_arg w)) = files w \<and>
         (files w certificate_file = None \<longrightarrow>
            fst (generate_or_load_server_certificate cfg certificate_file root_cert root_key
                   host_key names_arg w)
              = Inl (ValueError ''First name must be a string not an IP address'')) \<and>
         (\<forall>data. files w certificate_file = Some data \<longrightarrow>
            generate_or_load_server_certificate cfg certificate_file root_cert root_key
              host_key names_arg w = (load_pem_x509_certificate data, w))"
  using assms
  by (simp add: generate_or_load_server_certificate_def datetime_now_def Let_def
      split: option.splits)

theorem address_first_writes_nothing_witness:
  "[Addr (IPv4Address 167772161)] = Addr (IPv4Address 167772161) # [] \<and>
   files empty_world ''out/foo.cert.pem'' = None \<and>
   files (snd (generate_or_load_server_certificate example_config ''out/foo.cert.pem''
                 stored_certificate example_ca_key weak_rsa_key
                 [Addr (IPv4Address 167772161)] empty_world)) = files empty_world \<and>
   fst (generate_or_load_server_certificate example_config ''out/foo.cert.pem''
          stored_certificate example_ca_key weak_rsa_key
          [Addr (IPv4Address 167772161)] empty_world)
     = Inl (ValueError ''First name must be a string not an IP address'')"
proof -
  have names: "[Addr (IPv4Address 167772161)] = Addr (IPv4Address 167772161) # []"
    by simp
  have absent: "files empty_world ''out/foo.cert.pem'' = None"
    by (simp add: empty_world_def)
  from address_first_writes_nothing [OF names, of example_config "''out/foo.cert.pem''"
      stored_certificate example_ca_key weak_rsa_key empty_world] absent
  show ?thesis
    by simp
qed

text \<open>
  Claim C2, as stated, fails: \<open>main\<close> appends the domain to every name of the host before
  it calls \<open>generate_or_load_server_certificate\<close>, which takes the common name from the first
  element of what it is given. In a run on an empty output directory with the host of the
  claim, the common name of the certificate written for the host is \<open>foo.example.com\<close>.
\<close>

theorem common_name_is_qualified_counterexample:
  "main no_ipv6 example_config empty_world = (Inr (), world_after_host) \<and>
   files world_after_host ''out/foo.cert.pem'' = Some [CertificateBlock example_leaf] \<and>
   get_attributes_for_oid COMMON_NAME (subject example_leaf) = [''foo.example.com''] \<and>
   get_attributes_for_oid COMMON_NAME (subject example_leaf) \<noteq> [''foo'']"
proof -
  have "files world_after_host ''out/foo.cert.pem'' = Some [CertificateBlock example_leaf]"
    by (simp add: world_after_host_def public_bytes_def)
  moreover have "get_attributes_for_oid COMMON_NAME (subject example_leaf) = [''foo.example.com'']"
    by (simp add: example_leaf_def sign_fields get_attributes_for_oid_def)
  ultimately show ?thesis
    by (simp add: run_main)
qed

text \<open>
  Claim C2, amended. Let the organization be \<open>Home\<close>, the domain \<open>example.com\<close> and the host
  have the names \<open>foo\<close>, \<open>foo-alt\<close> and the address \<open>10.0.0.5\<close>; let the root certificate
  be one that \<open>generate_or_load_ca_certificate\<close> generated with the root key. When the body
  of the loop of \<open>main\<close> returns for this host and the host's certificate did not exist,
  the file of the certificate decodes to a certificate with the one common name
  \<open>foo.example.com\<close>, whose subject alternative names are the DNS names
  \<open>foo.example.com\<close> and \<open>foo-alt.example.com\<close> and the IP address 10.0.0.5 (as a number,
  167772165), whose issuer is the subject of the root certificate and whose signature
  verifies against the public key of the root certificate.
\<close>

theorem leaf_linkage:
  assumes dom: "domain cfg = ''example.com''"
    and org: "x509_name_item cfg ''organization'' = Inr ''Home''"
    and host: "names host = [''foo'', ''foo-alt'']" "ip_addresses host = [''10.0.0.5'']"
    and root_absent: "files w0 root_file = None"
    and root: "generate_or_load_ca_certificate cfg root_file ca_key w0 = (Inr ca_cert, w0')"
    and leaf_absent: "files w (joinpath (output_path cfg) ''foo.cert.pem'') = None"
    and run: "main_host ipv6_from_string cfg ca_key ca_cert host w = (Inr u, w')"
  shows "\<exists>host_cert data.
           files w' (joinpath (output_path cfg) ''foo.cert.pem'') = Some data \<and>
           load_pem_x509_certificate data = Inr host_cert \<and>
           get_attributes_for_oid ORGANIZATION_NAME (subject ca_cert) = [''Home''] \<and>
           get_attributes_for_oid COMMON_NAME (subject host_cert) = [''foo.example.com''] \<and>
           extensions host_cert =
             [\<lparr>ext_value = SubjectAlternativeName
                 [DNSName ''foo.example.com'', DNSName ''foo-alt.example.com'',
                  IPAddress (IPv4Address 167772165)],
               critical = False\<rparr>] \<and>
           issuer host_cert = subject ca_cert \<and>
           verify_signature (subject_public_key ca_cert) host_cert"
proof -
  let ?kp = "joinpath (output_path cfg) (''foo'' @ ''.key.pem'')"
  let ?cp = "joinpath (output_path cfg) (''foo'' @ ''.cert.pem'')"
  let ?hp = "joinpath (output_path cfg) (''foo'' @ ''.chain.pem'')"
  let ?ns = "[Str ''foo.example.com'', Str ''foo-alt.example.com'',
              Addr (IPv4Address 167772165)]"
  have cp: "?cp = joinpath (output_path cfg) ''foo.cert.pem''"
    by simp
  have ns: "host_names ipv6_from_string cfg host = Inr ?ns"
    by (simp add: host_names_def host ip_address_def ipv4_example dom)
  from main_host_success [OF run] host(1) ns obtain host_key w1 host_cert w2 where
    k: "generate_or_load_key ?kp w = (Inr host_key, w1)" and
    c: "generate_or_load_server_certificate cfg ?cp ca_cert ca_key host_key ?ns w1
          = (Inr host_cert, w2)" and
    w': "w' = write_chain ?hp ca_cert host_cert w2"
    by auto
  have "files w1 ?cp = files w ?cp"
    using key_other_path [of ?cp ?kp w] k by (simp add: joinpath_def)
  with leaf_absent have absent1: "files w1 ?cp = None"
    by simp
  from fresh_server_cases [OF absent1 c] obtain subject_name b where
    sn: "generate_name cfg ''foo.example.com'' = Inr subject_name" and
    hc: "host_cert = sign b ca_key SHA256" and
    b: "subject b = subject_name" "issuer b = subject ca_cert"
       "extensions b = [\<lparr>ext_value = SubjectAlternativeName (map x509_name_of ?ns),
                          critical = False\<rparr>]"
    by auto
  from fresh_ca_cases [OF root_absent root] obtain organization root_name rb where
    o: "x509_name_item cfg ''organization'' = Inr organization" and
    rn: "generate_name cfg (organization @ '' CA'') = Inr root_name" and
    rc: "ca_cert = sign rb ca_key SHA256" and
    rb: "subject rb = root_name" "subject_public_key rb = public_key ca_key"
    by auto
  from server_stored [OF c] obtain data where
    d: "files w2 ?cp = Some data" "load_pem_x509_certificate data = Inr host_cert"
    by blast
  have stored: "files w' ?cp = Some data"
    using d(1) chain_other_path [of ?cp ?hp ca_cert host_cert w2]
    by (simp add: w' joinpath_def)
  have "get_attributes_for_oid ORGANIZATION_NAME (subject ca_cert) = [''Home'']"
    using generate_name_organization [OF rn org] by (simp add: rc sign_fields rb)
  moreover have "get_attributes_for_oid COMMON_NAME (subject host_cert) = [''foo.example.com'']"
    using generate_name_common_name [OF sn] by (simp add: hc sign_fields b)
  moreover have "extensions host_cert =
             [\<lparr>ext_value = SubjectAlternativeName
                 [DNSName ''foo.example.com'', DNSName ''foo-alt.example.com'',
                  IPAddress (IPv4Address 167772165)],
               critical = False\<rparr>]"
    by (simp add: hc sign_fields b)
  moreover have "issuer host_cert = subject ca_cert"
    by (simp add: hc sign_fields b)
  moreover have "verify_signature (subject_public_key ca_cert) host_cert"
    by (simp add: rc sign_fields rb hc sign_verifies)
  ultimately show ?thesis
    using stored d(2) unfolding cp by blast
qed

theorem leaf_linkage_witness:
  "domain example_config = ''example.com'' \<and>
   x509_name_item example_config ''organization'' = Inr ''Home'' \<and>
   names example_host = [''foo'', ''foo-alt''] \<and>
   ip_addresses example_host = [''10.0.0.5''] \<and>
   files world_after_root_key ''out/ca.cert.pem'' = None \<and>
   generate_or_load_ca_certificate example_config ''out/ca.cert.pem'' example_ca_key
     world_after_root_key
     = (Inr example_root, world_after_root) \<and>
   files world_after_root (joinpath (output_path example_config) ''foo.cert.pem'') = None \<and>
   main_host no_ipv6 example_config example_ca_key example_root example_host world_after_root
     = (Inr (), world_after_host) \<and>
   (\<exists>host_cert data.
      files world_after_host ''out/foo.cert.pem'' = Some data \<and>
      load_pem_x509_certificate data = Inr host_cert \<and>
      get_attributes_for_oid COMMON_NAME (subject host_cert) = [''foo.example.com''] \<and>
      issuer host_cert = subject example_root \<and>
      verify_signature (subject_public_key example_root) host_cert)"
proof -
  have dom: "domain example_config = ''example.com''"
    by (simp add: domain_def example_config_def)
  have host: "names example_host = [''foo'', ''foo-alt'']"
    "ip_addresses example_host = [''10.0.0.5'']"
    by (simp_all add: example_host_def)
  have root_absent:
    "files world_after_root_key ''out/ca.cert.pem'' = None"
    by (simp add: world_after_root_key_def)
  have leaf_absent:
    "files world_after_root (joinpath (output_path example_config) ''foo.cert.pem'') = None"
    by (simp add: world_after_root_def joinpath_def example_output_path)
  from leaf_linkage [OF dom example_organization host root_absent run_root_cert leaf_absent
      run_host [of no_ipv6]]
    dom example_organization host root_absent run_root_cert leaf_absent run_host [of no_ipv6]
  show ?thesis
    by (simp add: joinpath_def example_output_path) blast
qed

subsection \<open>A host named like the root\<close>

text \<open>
  Claim C4 fails on the code. The files of a host are named after its first name and the
  files of the root after \<open>ca\<close>, in the same directory. For a host whose first name is
  \<open>ca\<close>, in a run on an empty output directory: the path of the host's key is the path of
  the root key, which exists by then, so the host's key is the root key; the path of the
  host's certificate is the path of the root certificate, so the certificate returned for
  the host is the root certificate, with the root's public key and the basic constraints
  of a CA; and the chain file of the host holds the root certificate twice.
\<close>

theorem host_named_ca_receives_root:
  "main no_ipv6 ca_host_config empty_world = (Inr (), world_after_ca_host) \<and>
   generate_or_load_key (joinpath (output_path ca_host_config) ''ca.key.pem'') empty_world
     = (Inr example_ca_key, world_after_root_key) \<and>
   generate_or_load_ca_certificate ca_host_config
     (joinpath (output_path ca_host_config) ''ca.cert.pem'') example_ca_key
     world_after_root_key
     = (Inr example_root, world_after_root) \<and>
   host_names no_ipv6 ca_host_config ca_host = Inr [Str ''ca.example.com''] \<and>
   generate_or_load_key (joinpath (output_path ca_host_config) (''ca'' @ ''.key.pem''))
     world_after_root = (Inr example_ca_key, world_after_root) \<and>
   generate_or_load_server_certificate ca_host_config
     (joinpath (output_path ca_host_config) (''ca'' @ ''.cert.pem''))
     example_root example_ca_key example_ca_key [Str ''ca.example.com''] world_after_root
     = (Inr example_root, world_after_root) \<and>
   subject_public_key example_root = public_key example_ca_key \<and>
   extensions example_root ! 0 = \<lparr>ext_value = BasicConstraints True None, critical = True\<rparr> \<and>
   files world_after_ca_host ''out/ca.chain.pem''
     = Some [CertificateBlock example_root, CertificateBlock example_root]"
proof -
  have "subject_public_key example_root = public_key example_ca_key"
    by (simp add: example_root_def sign_fields example_ca_key_def)
  moreover have "extensions example_root ! 0
                   = \<lparr>ext_value = BasicConstraints True None, critical = True\<rparr>"
    by (simp add: example_root_def sign_fields ca_extensions_def)
  moreover have "files world_after_ca_host ''out/ca.chain.pem''
     = Some [CertificateBlock example_root, CertificateBlock example_root]"
    by (simp add: world_after_ca_host_def public_bytes_def)
  ultimately show ?thesis
    by (simp only: ca_host_main ca_host_paths run_root_key ca_host_root_cert ca_host_names
        ca_host_key ca_host_cert simp_thms)
qed

subsection \<open>Present is terminal\<close>

text \<open>
  Claim C1. For each of the four kinds of file: when the path exists, the operation leaves
  the world as it is (it writes nothing); when an operation has returned, the same call
  in the world it left returns the same object and leaves that world as it is; and
  everything a file holds before an operation, or before a whole run of \<open>main\<close>, it
  still holds afterwards, so that a path only ever goes from absent to present.
\<close>

theorem present_is_terminal:
  "(files w p \<noteq> None \<longrightarrow>
      snd (generate_or_load_key p w) = w \<and>
      snd (generate_or_load_ca_certificate cfg p ca_key w) = w \<and>
      snd (generate_or_load_server_certificate cfg p root_cert root_key host_key names_arg w) = w \<and>
      write_chain p root_cert host_cert w = w) \<and>
   (generate_or_load_key p w = (Inr k, w1) \<longrightarrow>
      generate_or_load_key p w1 = (Inr k, w1)) \<and>
   (generate_or_load_ca_certificate cfg p ca_key w = (Inr c, w2) \<longrightarrow>
      generate_or_load_ca_certificate cfg p ca_key w2 = (Inr c, w2)) \<and>
   (generate_or_load_server_certificate cfg p root_cert root_key host_key names_arg w
      = (Inr c', w3) \<longrightarrow>
    generate_or_load_server_certificate cfg p root_cert root_key host_key names_arg w3
      = (Inr c', w3)) \<and>
   write_chain p root_cert host_cert (write_chain p root_cert host_cert w)
     = write_chain p root_cert host_cert w \<and>
   files w \<subseteq>\<^sub>m files (snd (generate_or_load_key p w)) \<and>
   files w \<subseteq>\<^sub>m files (snd (generate_or_load_ca_certificate cfg p ca_key w)) \<and>
   files w \<subseteq>\<^sub>m files (snd (generate_or_load_server_certificate cfg p root_cert root_key
                                 host_key names_arg w)) \<and>
   files w \<subseteq>\<^sub>m files (write_chain p root_cert host_cert w) \<and>
   files w \<subseteq>\<^sub>m files (snd (main ipv6_from_string cfg w))"
  by (intro conjI impI key_present ca_present server_present chain_present
      key_again ca_again server_again chain_again
      key_map_le ca_map_le server_map_le chain_map_le main_map_le)

theorem present_is_terminal_witness:
  "files bundle_world ''bundle.pem'' \<noteq> None \<and>
   generate_or_load_key ''bundle.pem'' bundle_world = (Inr weak_rsa_key, bundle_world) \<and>
   generate_or_load_ca_certificate example_config ''bundle.pem'' weak_rsa_key bundle_world
     = (Inr stored_certificate, bundle_world) \<and>
   generate_or_load_server_certificate example_config ''bundle.pem'' stored_certificate
     weak_rsa_key weak_rsa_key [] bundle_world = (Inr stored_certificate, bundle_world) \<and>
   write_chain ''bundle.pem'' stored_certificate stored_certificate bundle_world = bundle_world \<and>
   files bundle_world \<subseteq>\<^sub>m files (snd (main no_ipv6 example_config bundle_world)) \<and>
   (\<exists>k w1. generate_or_load_key ''out/ca.key.pem'' empty_world = (Inr k, w1) \<and>
            generate_or_load_key ''out/ca.key.pem'' w1 = (Inr k, w1))"
proof -
  have present: "files bundle_world ''bundle.pem'' \<noteq> None"
    by (simp add: bundle_world_def)
  have key: "generate_or_load_key ''bundle.pem'' bundle_world = (Inr weak_rsa_key, bundle_world)"
    by (simp add: generate_or_load_key_def bundle_world_def weak_rsa_key_def)
  have ca: "generate_or_load_ca_certificate example_config ''bundle.pem'' weak_rsa_key
              bundle_world = (Inr stored_certificate, bundle_world)"
    by (simp add: generate_or_load_ca_certificate_def bundle_world_def)
  have srv: "generate_or_load_server_certificate example_config ''bundle.pem''
               stored_certificate weak_rsa_key weak_rsa_key [] bundle_world
             = (Inr stored_certificate, bundle_world)"
    by (simp add: generate_or_load_server_certificate_def bundle_world_def)
  have "\<exists>k w1. generate_or_load_key ''out/ca.key.pem'' empty_world = (Inr k, w1)"
    by (simp add: generate_or_load_key_def empty_world_def os_urandom_def Let_def)
  then obtain k w1 where
    fresh: "generate_or_load_key ''out/ca.key.pem'' empty_world = (Inr k, w1)"
    by blast
  from present_is_terminal
      [where w = bundle_world and p = "''bundle.pem''" and cfg = example_config
         and ca_key = weak_rsa_key and root_cert = stored_certificate
         and root_key = weak_rsa_key and host_key = weak_rsa_key and names_arg = "[]"
         and host_cert = stored_certificate and k = weak_rsa_key and ?w1.0 = bundle_world
         and c = stored_certificate and ?w2.0 = bundle_world and c' = stored_certificate
         and ?w3.0 = bundle_world and ipv6_from_string = no_ipv6]
    present_is_terminal [where w = empty_world and p = "''out/ca.key.pem''" and k = k
         and ?w1.0 = w1]
    present key ca srv fresh
  show ?thesis
    by auto
qed

subsection \<open>The chain file\<close>

text \<open>
  Claim C7. When the body of the loop of \<open>main\<close> returns for a host whose chain file did
  not exist, the chain file holds the encoding of the root certificate followed at once by
  the encoding of the host's certificate (the certificate that the host's certificate file
  decodes to), two PEM blocks and nothing else. A chain file that exists is left as it is
  by the step that writes chain files and by any run of \<open>main\<close>, whatever the configuration
  and whatever else the run generates.
\<close>

theorem chain_file_content:
  "(names host = name # others \<longrightarrow>
    files w (joinpath (output_path cfg) (name @ ''.chain.pem'')) = None \<longrightarrow>
    main_host ipv6_from_string cfg ca_key ca_cert host w = (Inr u, w') \<longrightarrow>
      (\<exists>host_cert data.
         files w' (joinpath (output_path cfg) (name @ ''.cert.pem'')) = Some data \<and>
         load_pem_x509_certificate data = Inr host_cert \<and>
         files w' (joinpath (output_path cfg) (name @ ''.chain.pem''))
           = Some (serialize_certificate ca_cert @ serialize_certificate host_cert) \<and>
         serialize_certificate ca_cert @ serialize_certificate host_cert
           = [CertificateBlock ca_cert, CertificateBlock host_cert])) \<and>
   (files v chain_file = None \<longrightarrow>
      files (write_chain chain_file root_cert leaf_cert v) chain_file
        = Some (serialize_certificate root_cert @ serialize_certificate leaf_cert)) \<and>
   (files v chain_file = Some stored \<longrightarrow>
      files (write_chain chain_file root_cert leaf_cert v) chain_file = Some stored \<and>
      files (snd (main other_ipv6 other_cfg v)) chain_file = Some stored)"
proof (intro conjI impI)
  assume nm: "names host = name # others"
    and absent: "files w (joinpath (output_path cfg) (name @ ''.chain.pem'')) = None"
    and run: "main_host ipv6_from_string cfg ca_key ca_cert host w = (Inr u, w')"
  let ?kp = "joinpath (output_path cfg) (name @ ''.key.pem'')"
  let ?cp = "joinpath (output_path cfg) (name @ ''.cert.pem'')"
  let ?hp = "joinpath (output_path cfg) (name @ ''.chain.pem'')"
  from main_host_success [OF run] nm obtain ns host_key w1 host_cert w2 where
    k: "generate_or_load_key ?kp w = (Inr host_key, w1)" and
    c: "generate_or_load_server_certificate cfg ?cp ca_cert ca_key host_key ns w1
          = (Inr host_cert, w2)" and
    w': "w' = write_chain ?hp ca_cert host_cert w2"
    by auto
  have "files w1 ?hp = files w ?hp"
    using key_other_path [of ?hp ?kp w] k by (simp add: host_paths_differ [symmetric])
  moreover have "files w2 ?hp = files w1 ?hp"
    using server_other_path [of ?hp ?cp cfg ca_cert ca_key host_key ns w1] c
    by (simp add: host_paths_differ [symmetric])
  ultimately have none: "files w2 ?hp = None"
    using absent by simp
  from server_stored [OF c] obtain data where
    d: "files w2 ?cp = Some data" "load_pem_x509_certificate data = Inr host_cert"
    by blast
  have "files w' ?cp = files w2 ?cp"
    unfolding w' by (rule chain_other_path) (rule host_paths_differ)
  moreover have "files w' ?hp = Some (serialize_certificate ca_cert @ serialize_certificate host_cert)"
    using none by (simp add: w' write_chain_def exists_path_def write_file_def)
  moreover have "serialize_certificate ca_cert @ serialize_certificate host_cert
                   = [CertificateBlock ca_cert, CertificateBlock host_cert]"
    by (simp add: serialize_certificate_def public_bytes_def)
  ultimately show "\<exists>host_cert data.
         files w' ?cp = Some data \<and>
         load_pem_x509_certificate data = Inr host_cert \<and>
         files w' ?hp = Some (serialize_certificate ca_cert @ serialize_certificate host_cert) \<and>
         serialize_certificate ca_cert @ serialize_certificate host_cert
           = [CertificateBlock ca_cert, CertificateBlock host_cert]"
    using d by auto
next
  assume "files v chain_file = None"
  then show "files (write_chain chain_file root_cert leaf_cert v) chain_file
        = Some (serialize_certificate root_cert @ serialize_certificate leaf_cert)"
    by (simp add: write_chain_def exists_path_def write_file_def)
next
  assume "files v chain_file = Some stored"
  then show "files (write_chain chain_file root_cert leaf_cert v) chain_file = Some stored"
    by (simp add: write_chain_def exists_path_def)
next
  assume s: "files v chain_file = Some stored"
  have "files v \<subseteq>\<^sub>m files (snd (main other_ipv6 other_cfg v))"
    by (rule main_map_le)
  with s show "files (snd (main other_ipv6 other_cfg v)) chain_file = Some stored"
    by (auto simp add: map_le_def dom_def)
qed

theorem chain_file_content_witness:
  "names example_host = ''foo'' # [''foo-alt''] \<and>
   files world_after_root ''out/foo.chain.pem'' = None \<and>
   main_host no_ipv6 example_config example_ca_key example_root example_host world_after_root
     = (Inr (), world_after_host) \<and>
   files world_after_host ''out/foo.chain.pem''
     = Some [CertificateBlock example_root, CertificateBlock example_leaf] \<and>
   files (snd (main no_ipv6 example_config world_after_host)) ''out/foo.chain.pem''
     = Some [CertificateBlock example_root, CertificateBlock example_leaf]"
proof -
  have absent: "files world_after_root ''out/foo.chain.pem'' = None"
    by (simp add: world_after_root_def)
  have stored: "files world_after_host ''out/foo.chain.pem''
                  = Some [CertificateBlock example_root, CertificateBlock example_leaf]"
    by (simp add: world_after_host_def public_bytes_def)
  from chain_file_content
      [where host = example_host and name = "''foo''" and others = "[''foo-alt'']"
         and w = world_after_root and cfg = example_config and ipv6_from_string = no_ipv6
         and ca_key = example_ca_key and ca_cert = example_root and u = "()"
         and w' = world_after_host and v = world_after_host
         and chain_file = "''out/foo.chain.pem''"
         and stored = "[CertificateBlock example_root, CertificateBlock example_leaf]"
         and ?other_ipv6.0 = no_ipv6 and other_cfg = example_config]
    example_host_first absent stored run_host [of no_ipv6]
  show ?thesis
    by (simp add: example_paths)
qed

end
